theory Spec2Isabelle
  imports Main "HOL-Library.Word"
begin

unbundle bit_operations_syntax

section \<open>Go values the GeoLite service works with\<close>

text \<open>
  The service is the Go file \<^verbatim>\<open>geolite_service.go\<close> (package \<^verbatim>\<open>service\<close>; in this copy
  of the repository its text is the Go part of \<^verbatim>\<open>frontend/src/routes/+layout.svelte\<close>). It is
  embedded function by function. A Go byte is an \<open>8 word\<close>; a \<^verbatim>\<open>net.IP\<close> and a
  \<^verbatim>\<open>net.IPMask\<close> are byte slices, here byte lists, where the \<^verbatim>\<open>nil\<close> slice is the empty
  list (both have length 0, which is all the code below asks of them).
\<close>

type_synonym byte = "8 word"

record IPNet =
  IP :: "byte list"
  Mask :: "byte list"

text \<open>\<^verbatim>\<open>net.IPv4(a, b, c, d)\<close>: the 16-byte form, with the IPv4-in-IPv6 prefix.\<close>

definition v4InV6Prefix :: "byte list" where
  "v4InV6Prefix = [0, 0, 0, 0, 0, 0, 0, 0, 0, 0, 0xff, 0xff]"

definition IPv4 :: "byte \<Rightarrow> byte \<Rightarrow> byte \<Rightarrow> byte \<Rightarrow> byte list" where
  "IPv4 a b c d = v4InV6Prefix @ [a, b, c, d]"

definition IPv6loopback :: "byte list" where
  "IPv6loopback = [0, 0, 0, 0, 0, 0, 0, 0, 0, 0, 0, 0, 0, 0, 0, 1]"

text \<open>
  \<^verbatim>\<open>net.CIDRMask(ones, bits)\<close>: \<open>ones\<close> one-bits followed by zero-bits, \<open>bits\<close> long;
  \<^verbatim>\<open>nil\<close> unless \<open>bits\<close> is 32 or 128 and \<open>ones \<le> bits\<close>. The loop fills one byte per
  round: \<open>0xff\<close> while at least 8 ones remain, then \<^verbatim>\<open>^byte(0xff >> n)\<close>, then zeros.
\<close>

fun maskBytes :: "nat \<Rightarrow> nat \<Rightarrow> byte list" where
  "maskBytes 0 n = []"
| "maskBytes (Suc l) n =
     (if 8 \<le> n then 0xff # maskBytes l (n - 8)
      else NOT (drop_bit n (0xff :: byte)) # maskBytes l 0)"

definition CIDRMask :: "nat \<Rightarrow> nat \<Rightarrow> byte list" where
  "CIDRMask ones bits =
     (if bits \<noteq> 32 \<and> bits \<noteq> 128 then []
      else if bits < ones then []
      else maskBytes (bits div 8) ones)"

text \<open>
  \<^verbatim>\<open>ip.To4()\<close>: a 4-byte slice is returned as it is; a 16-byte slice that starts with ten
  zero bytes and two \<open>0xff\<close> bytes gives its last four bytes; anything else gives \<^verbatim>\<open>nil\<close>
  (\<open>None\<close>).
\<close>

definition To4 :: "byte list \<Rightarrow> byte list option" where
  "To4 ip =
     (if length ip = 4 then Some ip
      else if length ip = 16 \<and> list_all (\<lambda>b. b = 0) (take 10 ip)
              \<and> ip ! 10 = 0xff \<and> ip ! 11 = 0xff
      then Some (drop 12 ip)
      else None)"

text \<open>
  \<^verbatim>\<open>networkNumberAndMask(n)\<close> and \<^verbatim>\<open>n.Contains(ip)\<close> of package \<^verbatim>\<open>net\<close>: the network
  number and the mask are brought to the same length (4 or 16), the address is shortened
  to 4 bytes when \<open>To4\<close> allows it, and the two are compared byte by byte under the mask.
  Different lengths never match.
\<close>

definition networkNumberAndMask :: "IPNet \<Rightarrow> byte list \<times> byte list" where
  "networkNumberAndMask n =
     (case To4 (IP n) of
        None \<Rightarrow>
          if length (IP n) \<noteq> 16 then ([], [])
          else if length (Mask n) = 4 then ([], [])
          else if length (Mask n) = 16 then (IP n, Mask n)
          else ([], [])
      | Some ip \<Rightarrow>
          if length (Mask n) = 4 then (if length ip \<noteq> 4 then ([], []) else (ip, Mask n))
          else if length (Mask n) = 16 then
            (if length ip = 4 then (ip, drop 12 (Mask n)) else (ip, Mask n))
          else ([], []))"

definition Contains :: "IPNet \<Rightarrow> byte list \<Rightarrow> bool" where
  "Contains n ip0 =
     (let (nn, m) = networkNumberAndMask n;
          ip = (case To4 ip0 of Some x \<Rightarrow> x | None \<Rightarrow> ip0);
          l = length ip
      in if l \<noteq> length nn then False
         else list_all (\<lambda>i. (nn ! i) AND (m ! i) = (ip ! i) AND (m ! i)) [0..<l])"

text \<open>\<^verbatim>\<open>strings.Split(s, sep)\<close> for a one-character separator.\<close>

fun Split :: "string \<Rightarrow> char \<Rightarrow> string list" where
  "Split [] sep = [[]]"
| "Split (x # xs) sep =
     (if x = sep then [] # Split xs sep
      else (case Split xs sep of
              [] \<Rightarrow> [[x]]
            | y # ys \<Rightarrow> (x # y) # ys))"

section \<open>The world outside the service\<close>

text \<open>
  The file system is a map from paths to files (content and modification time, in
  nanoseconds of wall-clock time). Every call that leaves the process is written to a
  trace, in order: the HTTP request, each \<^verbatim>\<open>maxminddb.Open\<close>, and each file-system call
  with its outcome. \<^verbatim>\<open>slog\<close> output goes to \<open>logs\<close>.
\<close>

record fsfile =
  content :: "byte list"
  modTime :: int

datatype level = Info | Warn

datatype event =
    HttpGet string
  | MmdbOpen string bool
  | FsCreateTemp string
  | FsWrite string bool
  | FsRemove string bool
  | FsRename string string bool

record world =
  files :: "string \<rightharpoonup> fsfile"
  now :: int
  trace :: "event list"
  logs :: "(level \<times> string) list"

text \<open>A tar header, as far as the service reads it, and what \<^verbatim>\<open>tarReader.Next()\<close> can give:
  a header with the entry's data (and whether reading that data ends without an error),
  or an error. The end of the list is \<^verbatim>\<open>io.EOF\<close>.\<close>

record tar_Header =
  Typeflag :: byte
  Name :: string
  Size :: "64 word"

datatype tar_next = Next tar_Header "byte list" bool | NextError

text \<open>A response body: either \<^verbatim>\<open>gzip.NewReader\<close> rejects it, or it is a gzip stream that
  the tar reader walks through.\<close>

datatype body = NotGzip | TarGz "tar_next list"

record response =
  StatusCode :: int
  Body :: body

text \<open>The record \<^verbatim>\<open>maxminddb\<close> decodes into: the \<^verbatim>\<open>names\<close> maps of city and country.\<close>

record mmdb_record =
  City_Names :: "string \<rightharpoonup> string"
  Country_Names :: "string \<rightharpoonup> string"

text \<open>
  Library and operating-system behaviour the service calls and does not define is a
  parameter: the textual parsers of \<^verbatim>\<open>net\<close> and \<^verbatim>\<open>netip\<close>, \<^verbatim>\<open>strings.TrimSpace\<close>,
  \<^verbatim>\<open>fmt.Sprintf\<close> with one string argument, \<^verbatim>\<open>filepath.Base\<close> and \<^verbatim>\<open>filepath.Dir\<close>,
  whether \<^verbatim>\<open>http.NewRequestWithContext\<close> accepts a URL, the name \<^verbatim>\<open>os.CreateTemp\<close> picks
  (\<open>None\<close>: it fails), the bytes a copy into a file gets written, whether a rename or a
  removal succeeds, and the \<^verbatim>\<open>maxminddb\<close> decoder (which contents open as a database, and
  what a lookup in one decodes to; \<open>None\<close>: an error). \<open>'a\<close> is \<^verbatim>\<open>netip.Addr\<close>.
\<close>

record 'a runtime =
  ParseIP :: "string \<Rightarrow> byte list option"
  ParseAddr :: "string \<Rightarrow> 'a option"
  ParseCIDR :: "string \<Rightarrow> IPNet option"
  TrimSpace :: "string \<Rightarrow> string"
  Sprintf :: "string \<Rightarrow> string \<Rightarrow> string"
  filepath_Base :: "string \<Rightarrow> string"
  filepath_Dir :: "string \<Rightarrow> string"
  NewRequest :: "string \<Rightarrow> bool"
  TempName :: "string \<Rightarrow> string \<Rightarrow> string option"
  Written :: "string \<Rightarrow> byte list \<Rightarrow> byte list"
  RenameOk :: "string \<Rightarrow> string \<Rightarrow> bool"
  RemoveOk :: "string \<Rightarrow> bool"
  mmdbValid :: "byte list \<Rightarrow> bool"
  mmdbLookup :: "byte list \<Rightarrow> 'a \<Rightarrow> mmdb_record option"

text \<open>Package \<^verbatim>\<open>common\<close>: the fields of \<^verbatim>\<open>EnvConfig\<close> the service reads, and the constant
  \<^verbatim>\<open>MaxMindGeoLiteCityUrl\<close> (declared outside the service file, so a parameter here).\<close>

record common =
  MaxMindLicenseKey :: string
  GeoLiteDBUrl :: string
  GeoLiteDBPath :: string
  LocalIPv6Ranges :: string
  MaxMindGeoLiteCityUrl :: string

datatype error =
    ErrInvalidIPv6Range string
  | ErrNotIPv6Range string
  | ErrParseIPAddress
  | ErrMmdbOpen
  | ErrMmdbDecode
  | ErrCreateRequest
  | ErrDownload
  | ErrHTTPStatus int
  | ErrExtract error
  | ErrGzipReader
  | ErrReadTar
  | ErrSizeLimit
  | ErrCreateTemp
  | ErrWriteFile
  | ErrOpenDownloaded
  | ErrReplace
  | ErrNotInArchive

subsection \<open>File-system and decoder calls\<close>

text \<open>
  \<^verbatim>\<open>os.CreateTemp\<close> opens with \<^verbatim>\<open>O_EXCL\<close>: it never returns the name of a file that exists
  (it retries, and fails when it finds no free name), so a picked name that exists is a
  failure here. The new file is empty.
\<close>

definition os_CreateTemp :: "'a runtime \<Rightarrow> string \<Rightarrow> string \<Rightarrow> world \<Rightarrow> string option \<times> world" where
  "os_CreateTemp rt dir pattern w =
     (case TempName rt dir pattern of
        None \<Rightarrow> (None, w)
      | Some name \<Rightarrow>
          if files w name \<noteq> None then (None, w)
          else (Some name,
                w\<lparr>files := (files w)(name \<mapsto> \<lparr>content = [], modTime = now w\<rparr>),
                  trace := trace w @ [FsCreateTemp name]\<rparr>))"

text \<open>\<^verbatim>\<open>io.Copy(tmpFile, tarReader)\<close>: succeeds when the entry is read to its end without an
  error and every byte of it is written.\<close>

definition io_Copy :: "'a runtime \<Rightarrow> string \<Rightarrow> byte list \<Rightarrow> bool \<Rightarrow> world \<Rightarrow> bool \<times> world" where
  "io_Copy rt name data readOk w =
     (let ok = (readOk \<and> Written rt name data = data)
      in (ok,
          w\<lparr>files := (files w)(name \<mapsto> \<lparr>content = Written rt name data, modTime = now w\<rparr>),
            trace := trace w @ [FsWrite name ok]\<rparr>))"

definition os_Remove :: "'a runtime \<Rightarrow> string \<Rightarrow> world \<Rightarrow> world" where
  "os_Remove rt name w =
     (if RemoveOk rt name \<and> files w name \<noteq> None
      then w\<lparr>files := (files w)(name := None), trace := trace w @ [FsRemove name True]\<rparr>
      else w\<lparr>trace := trace w @ [FsRemove name False]\<rparr>)"

text \<open>\<^verbatim>\<open>os.Rename(old, new)\<close>: one step that puts the old file at the new path, or fails and
  changes nothing. Renaming a file onto itself does nothing.\<close>

definition os_Rename :: "'a runtime \<Rightarrow> string \<Rightarrow> string \<Rightarrow> world \<Rightarrow> bool \<times> world" where
  "os_Rename rt old new w =
     (if RenameOk rt old new \<and> files w old \<noteq> None
      then (True,
            w\<lparr>files := (if old = new then files w
                        else (files w)(new := files w old, old := None)),
              trace := trace w @ [FsRename old new True]\<rparr>)
      else (False, w\<lparr>trace := trace w @ [FsRename old new False]\<rparr>))"

text \<open>\<^verbatim>\<open>maxminddb.Open(path)\<close>: the content of the file, when there is one and it decodes.\<close>

definition maxminddb_Open :: "'a runtime \<Rightarrow> string \<Rightarrow> world \<Rightarrow> byte list option \<times> world" where
  "maxminddb_Open rt path w =
     (case files w path of
        None \<Rightarrow> (None, w\<lparr>trace := trace w @ [MmdbOpen path False]\<rparr>)
      | Some f \<Rightarrow>
          if mmdbValid rt (content f)
          then (Some (content f), w\<lparr>trace := trace w @ [MmdbOpen path True]\<rparr>)
          else (None, w\<lparr>trace := trace w @ [MmdbOpen path False]\<rparr>))"

section \<open>The service\<close>

text \<open>\<^verbatim>\<open>GeoLiteService\<close>. The HTTP client is what \<^verbatim>\<open>httpClient.Do\<close> answers to a GET of a URL
  (\<open>None\<close>: a transport error, a timeout or a cancellation). The mutex has no effect on
  one call run alone and is left out.\<close>

record GeoLiteService =
  httpClient :: "string \<Rightarrow> response option"
  disableUpdater :: bool
  localIPv6Ranges :: "IPNet list"

definition localhostIPNets :: "IPNet list" where
  "localhostIPNets =
     [\<lparr>IP = IPv4 127 0 0 0, Mask = CIDRMask 8 32\<rparr>,
      \<lparr>IP = IPv6loopback, Mask = CIDRMask 128 128\<rparr>]"

definition privateLanIPNets :: "IPNet list" where
  "privateLanIPNets =
     [\<lparr>IP = IPv4 10 0 0 0, Mask = CIDRMask 8 32\<rparr>,
      \<lparr>IP = IPv4 172 16 0 0, Mask = CIDRMask 12 32\<rparr>,
      \<lparr>IP = IPv4 192 168 0 0, Mask = CIDRMask 16 32\<rparr>]"

definition tailscaleIPNets :: "IPNet list" where
  "tailscaleIPNets = [\<lparr>IP = IPv4 100 64 0 0, Mask = CIDRMask 10 32\<rparr>]"

subsection \<open>Construction\<close>

text \<open>The loop of \<^verbatim>\<open>initializeIPv6LocalRanges\<close> over the split entries, with the ranges
  collected so far.\<close>

fun parseRanges :: "'a runtime \<Rightarrow> string list \<Rightarrow> IPNet list \<Rightarrow> error + IPNet list" where
  "parseRanges rt [] localRanges = Inr localRanges"
| "parseRanges rt (rangeStr0 # ranges) localRanges =
     (let rangeStr = TrimSpace rt rangeStr0
      in if rangeStr = [] then parseRanges rt ranges localRanges
         else (case ParseCIDR rt rangeStr of
                 None \<Rightarrow> Inl (ErrInvalidIPv6Range rangeStr)
               | Some ipNet \<Rightarrow>
                   if To4 (IP ipNet) \<noteq> None then Inl (ErrNotIPv6Range rangeStr)
                   else parseRanges rt ranges (localRanges @ [ipNet])))"

definition initializeIPv6LocalRanges ::
  "'a runtime \<Rightarrow> common \<Rightarrow> GeoLiteService \<Rightarrow> world \<Rightarrow> error option \<times> GeoLiteService \<times> world" where
  "initializeIPv6LocalRanges rt c s w =
     (let rangesEnv = LocalIPv6Ranges c
      in if rangesEnv = [] then (None, s, w)
         else (case parseRanges rt (Split rangesEnv CHR '','') [] of
                 Inl e \<Rightarrow> (Some e, s, w)
               | Inr localRanges \<Rightarrow>
                   (None, s\<lparr>localIPv6Ranges := localRanges\<rparr>,
                    if 0 < length localRanges
                    then w\<lparr>logs := logs w @ [(Info, ''Initialized IPv6 local ranges'')]\<rparr>
                    else w)))"

definition NewGeoLiteService ::
  "'a runtime \<Rightarrow> common \<Rightarrow> (string \<Rightarrow> response option) \<Rightarrow> world \<Rightarrow> GeoLiteService \<times> world" where
  "NewGeoLiteService rt c client w =
     (let service = \<lparr>httpClient = client, disableUpdater = False, localIPv6Ranges = []\<rparr>;
          (service, w) =
            (if MaxMindLicenseKey c = [] \<and> GeoLiteDBUrl c = MaxMindGeoLiteCityUrl c
             then (service\<lparr>disableUpdater := True\<rparr>,
                   w\<lparr>logs := logs w @
                     [(Warn, ''MAXMIND_LICENSE_KEY environment variable is empty: the GeoLite2 City database won't be updated'')]\<rparr>)
             else (service, w))
      in (case initializeIPv6LocalRanges rt c service w of
            (Some err, service, w) \<Rightarrow>
              (service, w\<lparr>logs := logs w @ [(Warn, ''Failed to initialize IPv6 local ranges'')]\<rparr>)
          | (None, service, w) \<Rightarrow> (service, w)))"

definition DisableUpdater :: "GeoLiteService \<Rightarrow> bool" where
  "DisableUpdater s = disableUpdater s"

subsection \<open>Lookup\<close>

definition isLocalIPv6 :: "GeoLiteService \<Rightarrow> byte list \<Rightarrow> bool" where
  "isLocalIPv6 s ip =
     (if To4 ip \<noteq> None then False
      else list_ex (\<lambda>localRange. Contains localRange ip) (localIPv6Ranges s))"

text \<open>The part of \<^verbatim>\<open>GetLocationByIP\<close> after the range checks: parse with \<^verbatim>\<open>netip\<close>, open the
  database file, decode the record, return the English names (a missing key of a Go map
  reads as the empty string).\<close>

definition names_en :: "(string \<rightharpoonup> string) \<Rightarrow> string" where
  "names_en m = (case m ''en'' of None \<Rightarrow> [] | Some v \<Rightarrow> v)"

definition lookupInDatabase ::
  "'a runtime \<Rightarrow> common \<Rightarrow> string \<Rightarrow> world \<Rightarrow> (string \<times> string \<times> error option) \<times> world" where
  "lookupInDatabase rt c ipAddress w =
     (case ParseAddr rt ipAddress of
        None \<Rightarrow> (([], [], Some ErrParseIPAddress), w)
      | Some addr \<Rightarrow>
          (case maxminddb_Open rt (GeoLiteDBPath c) w of
             (None, w) \<Rightarrow> (([], [], Some ErrMmdbOpen), w)
           | (Some db, w) \<Rightarrow>
               (case mmdbLookup rt db addr of
                  None \<Rightarrow> (([], [], Some ErrMmdbDecode), w)
                | Some r \<Rightarrow>
                    ((names_en (Country_Names r), names_en (City_Names r), None), w))))"

definition GetLocationByIP ::
  "'a runtime \<Rightarrow> common \<Rightarrow> GeoLiteService \<Rightarrow> string \<Rightarrow> world
     \<Rightarrow> (string \<times> string \<times> error option) \<times> world" where
  "GetLocationByIP rt c s ipAddress w =
     (if ipAddress = [] then (([], [], None), w)
      else (case ParseIP rt ipAddress of
              Some ip \<Rightarrow>
                if isLocalIPv6 s ip then ((''Internal Network'', ''LAN'', None), w)
                else if list_ex (\<lambda>ipNet. Contains ipNet ip) tailscaleIPNets
                then ((''Internal Network'', ''Tailscale'', None), w)
                else if list_ex (\<lambda>ipNet. Contains ipNet ip) privateLanIPNets
                then ((''Internal Network'', ''LAN'', None), w)
                else if list_ex (\<lambda>ipNet. Contains ipNet ip) localhostIPNets
                then ((''Internal Network'', ''localhost'', None), w)
                else lookupInDatabase rt c ipAddress w
            | None \<Rightarrow> lookupInDatabase rt c ipAddress w))"

subsection \<open>Update\<close>

text \<open>\<^verbatim>\<open>time.Hour\<close> in nanoseconds, and \<^verbatim>\<open>time.Since(t)\<close>: the difference to the current
  time as an \<^verbatim>\<open>int64\<close> duration, which Go saturates at the largest and smallest
  duration instead of wrapping around.\<close>

definition time_Hour :: int where
  "time_Hour = 3600000000000"

definition time_Since :: "world \<Rightarrow> int \<Rightarrow> int" where
  "time_Since w t =
     (let d = now w - t
      in if 2 ^ 63 - 1 < d then 2 ^ 63 - 1
         else if d < - (2 ^ 63) then - (2 ^ 63)
         else d)"

text \<open>\<^verbatim>\<open>os.Stat\<close> fails when there is no file at the path.\<close>

definition isDatabaseUpToDate :: "common \<Rightarrow> world \<Rightarrow> bool" where
  "isDatabaseUpToDate c w =
     (case files w (GeoLiteDBPath c) of
        None \<Rightarrow> False
      | Some info \<Rightarrow> time_Since w (modTime info) < 14 * 24 * time_Hour)"

definition maxTotalSize :: int where
  "maxTotalSize = 300 * 1024 * 1024"

text \<open>\<^verbatim>\<open>tar.TypeReg\<close> is the character \<^verbatim>\<open>'0'\<close>.\<close>

definition TypeReg :: byte where
  "TypeReg = 0x30"

text \<open>The loop of \<^verbatim>\<open>extractDatabase\<close> over the entries of the archive. \<open>totalSize\<close> is an
  \<^verbatim>\<open>int64\<close>: the addition wraps around and the comparison is signed.\<close>

fun extractEntries ::
  "'a runtime \<Rightarrow> common \<Rightarrow> tar_next list \<Rightarrow> 64 word \<Rightarrow> world \<Rightarrow> error option \<times> world" where
  "extractEntries rt c [] totalSize w = (Some ErrNotInArchive, w)"
| "extractEntries rt c (NextError # rest) totalSize w = (Some ErrReadTar, w)"
| "extractEntries rt c (Next header data readOk # rest) totalSize w =
     (if Typeflag header = TypeReg \<and> filepath_Base rt (Name header) = ''GeoLite2-City.mmdb''
      then
        let totalSize = totalSize + Size header
        in if maxTotalSize < sint totalSize then (Some ErrSizeLimit, w)
           else
             let baseDir = filepath_Dir rt (GeoLiteDBPath c)
             in (case os_CreateTemp rt baseDir ''geolite.*.mmdb.tmp'' w of
                   (None, w) \<Rightarrow> (Some ErrCreateTemp, w)
                 | (Some tempName, w) \<Rightarrow>
                     let (copied, w) = io_Copy rt tempName data readOk w
                     in if \<not> copied then (Some ErrWriteFile, os_Remove rt tempName w)
                        else (case maxminddb_Open rt tempName w of
                                (None, w) \<Rightarrow> (Some ErrOpenDownloaded, os_Remove rt tempName w)
                              | (Some db, w) \<Rightarrow>
                                  let (renamed, w) = os_Rename rt tempName (GeoLiteDBPath c) w
                                  in if \<not> renamed then (Some ErrReplace, os_Remove rt tempName w)
                                     else (None, w)))
      else extractEntries rt c rest totalSize w)"

definition extractDatabase :: "'a runtime \<Rightarrow> common \<Rightarrow> body \<Rightarrow> world \<Rightarrow> error option \<times> world" where
  "extractDatabase rt c reader w =
     (case reader of
        NotGzip \<Rightarrow> (Some ErrGzipReader, w)
      | TarGz entries \<Rightarrow> extractEntries rt c entries 0 w)"

definition UpdateDatabase ::
  "'a runtime \<Rightarrow> common \<Rightarrow> GeoLiteService \<Rightarrow> world \<Rightarrow> error option \<times> world" where
  "UpdateDatabase rt c s w =
     (if isDatabaseUpToDate c w
      then (None, w\<lparr>logs := logs w @ [(Info, ''GeoLite2 City database is up-to-date'')]\<rparr>)
      else
        let w = w\<lparr>logs := logs w @ [(Info, ''Updating GeoLite2 City database'')]\<rparr>;
            downloadUrl = Sprintf rt (GeoLiteDBUrl c) (MaxMindLicenseKey c)
        in if \<not> NewRequest rt downloadUrl then (Some ErrCreateRequest, w)
           else
             let w = w\<lparr>trace := trace w @ [HttpGet downloadUrl]\<rparr>
             in (case httpClient s downloadUrl of
                   None \<Rightarrow> (Some ErrDownload, w)
                 | Some resp \<Rightarrow>
                     if StatusCode resp \<noteq> 200 then (Some (ErrHTTPStatus (StatusCode resp)), w)
                     else (case extractDatabase rt c (Body resp) w of
                             (Some err, w) \<Rightarrow> (Some (ErrExtract err), w)
                           | (None, w) \<Rightarrow>
                               (None,
                                w\<lparr>logs := logs w @
                                  [(Info, ''GeoLite2 City database successfully updated.'')]\<rparr>))))"

section \<open>What the specification says, for comparison\<close>

subsection \<open>Address ranges\<close>

text \<open>The four numbers of an IPv4 address in dotted notation (also of one written in the
  IPv4-in-IPv6 form); \<open>None\<close> for every other address.\<close>

definition octets :: "byte list \<Rightarrow> (nat \<times> nat \<times> nat \<times> nat) option" where
  "octets ip =
     (case To4 ip of
        Some [a, b, c, d] \<Rightarrow> Some (unat a, unat b, unat c, unat d)
      | _ \<Rightarrow> None)"

text \<open>The ranges the specification names, by the numbers they contain: 100.64.0.0/10 is
  100.64.0.0 to 100.127.255.255, 172.16.0.0/12 is 172.16.0.0 to 172.31.255.255.\<close>

definition in_100_64_0_0_10 :: "byte list \<Rightarrow> bool" where
  "in_100_64_0_0_10 ip =
     (case octets ip of Some (a, b, c, d) \<Rightarrow> a = 100 \<and> 64 \<le> b \<and> b \<le> 127 | None \<Rightarrow> False)"

definition in_10_0_0_0_8 :: "byte list \<Rightarrow> bool" where
  "in_10_0_0_0_8 ip = (case octets ip of Some (a, b, c, d) \<Rightarrow> a = 10 | None \<Rightarrow> False)"

definition in_172_16_0_0_12 :: "byte list \<Rightarrow> bool" where
  "in_172_16_0_0_12 ip =
     (case octets ip of Some (a, b, c, d) \<Rightarrow> a = 172 \<and> 16 \<le> b \<and> b \<le> 31 | None \<Rightarrow> False)"

definition in_192_168_0_0_16 :: "byte list \<Rightarrow> bool" where
  "in_192_168_0_0_16 ip =
     (case octets ip of Some (a, b, c, d) \<Rightarrow> a = 192 \<and> b = 168 | None \<Rightarrow> False)"

definition in_127_0_0_0_8 :: "byte list \<Rightarrow> bool" where
  "in_127_0_0_0_8 ip = (case octets ip of Some (a, b, c, d) \<Rightarrow> a = 127 | None \<Rightarrow> False)"

text \<open>The Range Classifier of the specification: its five steps in their order, over a
  parsed address and the Local Range Set. An address is IPv6 when it has no 4-byte form.\<close>

definition spec_Classify :: "IPNet list \<Rightarrow> byte list \<Rightarrow> (string \<times> string) option" where
  "spec_Classify localRanges ip =
     (if To4 ip = None \<and> list_ex (\<lambda>r. Contains r ip) localRanges
      then Some (''Internal Network'', ''LAN'')
      else if in_100_64_0_0_10 ip
      then Some (''Internal Network'', ''Tailscale'')
      else if in_10_0_0_0_8 ip \<or> in_172_16_0_0_12 ip \<or> in_192_168_0_0_16 ip
      then Some (''Internal Network'', ''LAN'')
      else if in_127_0_0_0_8 ip \<or> ip = IPv6loopback
      then Some (''Internal Network'', ''localhost'')
      else None)"

subsection \<open>Reading a trace\<close>

text \<open>The events a call added to the trace.\<close>

definition added :: "world \<Rightarrow> world \<Rightarrow> event list" where
  "added w w' = drop (length (trace w)) (trace w')"

text \<open>An event that changes what is at path \<open>p\<close>.\<close>

fun mutates :: "string \<Rightarrow> event \<Rightarrow> bool" where
  "mutates p (FsCreateTemp q) = (q = p)"
| "mutates p (FsWrite q ok) = (q = p)"
| "mutates p (FsRemove q ok) = (ok \<and> q = p)"
| "mutates p (FsRename old new ok) = (ok \<and> (old = p \<or> new = p))"
| "mutates p (HttpGet url) = False"
| "mutates p (MmdbOpen q ok) = False"

text \<open>Every rename onto \<open>p\<close> in a trace, attempted or done, is of a file that the decoder
  opened before and that was not written since. \<open>opened\<close> are the files opened so far.\<close>

fun validated_promotions :: "string \<Rightarrow> string list \<Rightarrow> event list \<Rightarrow> bool" where
  "validated_promotions p opened [] = True"
| "validated_promotions p opened (MmdbOpen q ok # evs) =
     validated_promotions p (if ok then q # opened else opened) evs"
| "validated_promotions p opened (FsRename old new ok # evs) =
     ((new \<noteq> p \<or> old \<in> set opened) \<and> validated_promotions p opened evs)"
| "validated_promotions p opened (FsWrite q ok # evs) =
     validated_promotions p (removeAll q opened) evs"
| "validated_promotions p opened (FsCreateTemp q # evs) =
     validated_promotions p (removeAll q opened) evs"
| "validated_promotions p opened (FsRemove q ok # evs) = validated_promotions p opened evs"
| "validated_promotions p opened (HttpGet url # evs) = validated_promotions p opened evs"

text \<open>An archive entry the loop of \<^verbatim>\<open>extractDatabase\<close> passes over: read without an error,
  and not a regular file with the expected base name.\<close>

fun skipped :: "'a runtime \<Rightarrow> tar_next \<Rightarrow> bool" where
  "skipped rt NextError = False"
| "skipped rt (Next header data readOk) =
     (\<not> (Typeflag header = TypeReg \<and> filepath_Base rt (Name header) = ''GeoLite2-City.mmdb''))"

text \<open>The running total as the specification words it: the header sizes of all matching
  entries of an archive, added up (entries after a read error are never reached).\<close>

fun spec_matching_total :: "'a runtime \<Rightarrow> tar_next list \<Rightarrow> int" where
  "spec_matching_total rt [] = 0"
| "spec_matching_total rt (NextError # rest) = 0"
| "spec_matching_total rt (Next header data readOk # rest) =
     (if Typeflag header = TypeReg \<and> filepath_Base rt (Name header) = ''GeoLite2-City.mmdb''
      then sint (Size header) + spec_matching_total rt rest
      else spec_matching_total rt rest)"

text \<open>The body of the loop of \<^verbatim>\<open>extractDatabase\<close> for a matching entry, after the size
  check: stage, validate, install.\<close>

definition stageEntry ::
  "'a runtime \<Rightarrow> common \<Rightarrow> byte list \<Rightarrow> bool \<Rightarrow> world \<Rightarrow> error option \<times> world" where
  "stageEntry rt c data readOk w =
     (let baseDir = filepath_Dir rt (GeoLiteDBPath c)
      in (case os_CreateTemp rt baseDir ''geolite.*.mmdb.tmp'' w of
            (None, w) \<Rightarrow> (Some ErrCreateTemp, w)
          | (Some tempName, w) \<Rightarrow>
              let (copied, w) = io_Copy rt tempName data readOk w
              in if \<not> copied then (Some ErrWriteFile, os_Remove rt tempName w)
                 else (case maxminddb_Open rt tempName w of
                         (None, w) \<Rightarrow> (Some ErrOpenDownloaded, os_Remove rt tempName w)
                       | (Some db, w) \<Rightarrow>
                           let (renamed, w) = os_Rename rt tempName (GeoLiteDBPath c) w
                           in if \<not> renamed then (Some ErrReplace, os_Remove rt tempName w)
                              else (None, w))))"

text \<open>The states \<^verbatim>\<open>UpdateDatabase\<close> passes through before it reads the response: the URL it
  asks for, the world after the first log line, and the world after the request was sent.\<close>

definition downloadUrl :: "'a runtime \<Rightarrow> common \<Rightarrow> string" where
  "downloadUrl rt c = Sprintf rt (GeoLiteDBUrl c) (MaxMindLicenseKey c)"

definition updating :: "world \<Rightarrow> world" where
  "updating w = w\<lparr>logs := logs w @ [(Info, ''Updating GeoLite2 City database'')]\<rparr>"

definition requested :: "'a runtime \<Rightarrow> common \<Rightarrow> world \<Rightarrow> world" where
  "requested rt c w = (updating w)\<lparr>trace := trace w @ [HttpGet (downloadUrl rt c)]\<rparr>"

section \<open>A worked configuration\<close>

text \<open>
  One concrete runtime, configuration and world, on which the properties below are also
  evaluated. The parsers are tables for the few strings used; \<open>Sprintf\<close> fills in the first
  \<^verbatim>\<open>%s\<close>; a database is valid when it starts with the byte \<open>0xab\<close>; the netip address of
  a string is the string. The archive holds a directory and the database file, with the
  given data and the given size in its header.
\<close>

fun example_Sprintf :: "string \<Rightarrow> string \<Rightarrow> string" where
  "example_Sprintf [] a = []"
| "example_Sprintf (x # xs) a =
     (if x = CHR ''%'' \<and> take 1 xs = ''s'' then a @ drop 1 xs else x # example_Sprintf xs a)"

definition example_runtime :: "string runtime" where
  "example_runtime =
     \<lparr>ParseIP = map_of
        [(''10.1.2.3'', IPv4 10 1 2 3), (''100.64.0.1'', IPv4 100 64 0 1),
         (''127.0.0.1'', IPv4 127 0 0 1), (''8.8.8.8'', IPv4 8 8 8 8),
         (''::1'', IPv6loopback)],
      ParseAddr = (\<lambda>s. if s \<in> set [''10.1.2.3'', ''100.64.0.1'', ''127.0.0.1'', ''8.8.8.8'', ''::1'']
                        then Some s else None),
      ParseCIDR = map_of
        [(''::/0'', \<lparr>IP = replicate 16 0, Mask = CIDRMask 0 128\<rparr>),
         (''fd00::/8'', \<lparr>IP = 0xfd # replicate 15 0, Mask = CIDRMask 8 128\<rparr>),
         (''10.0.0.0/8'', \<lparr>IP = [10, 0, 0, 0], Mask = CIDRMask 8 32\<rparr>)],
      TrimSpace = (\<lambda>s. rev (dropWhile (\<lambda>ch. ch = CHR '' '')
                              (rev (dropWhile (\<lambda>ch. ch = CHR '' '') s)))),
      Sprintf = example_Sprintf,
      filepath_Base = (\<lambda>p. last (Split p CHR ''/'')),
      filepath_Dir = (\<lambda>p. ''/data''),
      NewRequest = (\<lambda>url. True),
      TempName = (\<lambda>dir pattern. Some (dir @ ''/geolite.1.mmdb.tmp'')),
      Written = (\<lambda>name data. data),
      RenameOk = (\<lambda>old new. True),
      RemoveOk = (\<lambda>name. True),
      mmdbValid = (\<lambda>bytes. take 1 bytes = [0xab]),
      mmdbLookup = (\<lambda>db addr. Some \<lparr>City_Names = Map.empty, Country_Names = Map.empty\<rparr>)\<rparr>"

definition example_config :: common where
  "example_config =
     \<lparr>MaxMindLicenseKey = [],
      GeoLiteDBUrl = ''https://maxmind.example/geoip?license_key=%s&suffix=tar.gz'',
      GeoLiteDBPath = ''/data/GeoLite2-City.mmdb'',
      LocalIPv6Ranges = ''fd00::/8, 10.0.0.0/8'',
      MaxMindGeoLiteCityUrl = ''https://maxmind.example/geoip?license_key=%s&suffix=tar.gz''\<rparr>"

definition example_archive :: "byte list \<Rightarrow> 64 word \<Rightarrow> tar_next list" where
  "example_archive data sz =
     [Next \<lparr>Typeflag = 0x35, Name = ''GeoLite2-City_20250101/'', Size = 0\<rparr> [] True,
      Next \<lparr>Typeflag = TypeReg, Name = ''GeoLite2-City_20250101/GeoLite2-City.mmdb'', Size = sz\<rparr>
        data True]"

definition example_client :: "byte list \<Rightarrow> 64 word \<Rightarrow> string \<Rightarrow> response option" where
  "example_client data sz url =
     Some \<lparr>StatusCode = 200, Body = TarGz (example_archive data sz)\<rparr>"

text \<open>A world whose database is 30 days old, one whose database is a day old, and one
  without a database.\<close>

definition example_world :: world where
  "example_world =
     \<lparr>files = [''/data/GeoLite2-City.mmdb'' \<mapsto> \<lparr>content = [0xab, 1], modTime = 0\<rparr>],
      now = 30 * 24 * time_Hour,
      trace = [],
      logs = []\<rparr>"

definition example_fresh_world :: world where
  "example_fresh_world = example_world\<lparr>now := 24 * time_Hour\<rparr>"

definition example_empty_world :: world where
  "example_empty_world = example_world\<lparr>files := Map.empty\<rparr>"

definition example_service :: "byte list \<Rightarrow> 64 word \<Rightarrow> GeoLiteService" where
  "example_service data sz =
     \<lparr>httpClient = example_client data sz, disableUpdater = True,
      localIPv6Ranges = [\<lparr>IP = replicate 16 0, Mask = CIDRMask 0 128\<rparr>]\<rparr>"

text \<open>An archive with two matching entries of 200 MiB each (the header size is the length of
  the data, which starts with the byte that makes a database valid), and a service whose
  client answers with it.\<close>

definition example_big_data :: "byte list" where
  "example_big_data = 0xab # replicate 209715199 7"

definition example_two_entries :: "tar_next list" where
  "example_two_entries =
     [Next \<lparr>Typeflag = TypeReg, Name = ''first/GeoLite2-City.mmdb'', Size = 209715200\<rparr>
        example_big_data True,
      Next \<lparr>Typeflag = TypeReg, Name = ''second/GeoLite2-City.mmdb'', Size = 209715200\<rparr>
        example_big_data True]"

definition example_two_entry_service :: GeoLiteService where
  "example_two_entry_service =
     \<lparr>httpClient = (\<lambda>url. Some \<lparr>StatusCode = 200, Body = TarGz example_two_entries\<rparr>),
      disableUpdater = False,
      localIPv6Ranges = []\<rparr>"

section \<open>Properties\<close>

lemmas fs_defs = os_CreateTemp_def io_Copy_def maxminddb_Open_def os_Rename_def os_Remove_def

subsection \<open>Addresses and the built-in ranges\<close>

lemma CIDRMask_8_32: "CIDRMask 8 32 = [0xff, 0, 0, 0]"
  by code_simp
lemma CIDRMask_10_32: "CIDRMask 10 32 = [0xff, 0xc0, 0, 0]"
  by code_simp
lemma CIDRMask_12_32: "CIDRMask 12 32 = [0xff, 0xf0, 0, 0]"
  by code_simp
lemma CIDRMask_16_32: "CIDRMask 16 32 = [0xff, 0xff, 0, 0]"
  by code_simp
lemma CIDRMask_128_128: "CIDRMask 128 128 = replicate 16 0xff"
  by code_simp

lemma To4_IPv4: "To4 (IPv4 a b c d) = Some [a, b, c, d]"
  by (simp add: To4_def IPv4_def v4InV6Prefix_def)

lemma To4_length: "To4 ip = Some x \<Longrightarrow> length x = 4"
  by (auto simp: To4_def split: if_splits)

lemma To4_None_length: "To4 ip = None \<Longrightarrow> length ip \<noteq> 4"
  by (auto simp: To4_def split: if_splits)

lemma To4_loopback: "To4 IPv6loopback = None"
  by (simp add: To4_def IPv6loopback_def)

lemma length_IPv6loopback: "length IPv6loopback = 16"
  by (simp add: IPv6loopback_def)

lemma length4E: "length x = 4 \<Longrightarrow> \<exists>x0 x1 x2 x3. x = [x0, x1, x2, x3]"
  by (cases x; simp; rename_tac a1 l1; case_tac l1; simp; rename_tac a2 l2; case_tac l2; simp;
      rename_tac a3 l3; case_tac l3; simp)

lemma upt4: "[0..<4] = [0, 1, 2, 3]"
  by (simp add: upt_rec)

lemma nnm_v4: "networkNumberAndMask \<lparr>IP = IPv4 a b c d, Mask = [m0, m1, m2, m3]\<rparr>
   = ([a, b, c, d], [m0, m1, m2, m3])"
  by (simp add: networkNumberAndMask_def To4_IPv4)

lemma Contains_v4net:
  "Contains \<lparr>IP = IPv4 a b c d, Mask = [m0, m1, m2, m3]\<rparr> ip \<longleftrightarrow>
     (\<exists>x0 x1 x2 x3. To4 ip = Some [x0, x1, x2, x3]
        \<and> a AND m0 = x0 AND m0 \<and> b AND m1 = x1 AND m1
        \<and> c AND m2 = x2 AND m2 \<and> d AND m3 = x3 AND m3)"
proof (cases "To4 ip")
  case None
  then have "length ip \<noteq> 4" by (rule To4_None_length)
  then show ?thesis
    by (simp add: Contains_def nnm_v4 None)
next
  case (Some x)
  then obtain x0 x1 x2 x3 where x: "x = [x0, x1, x2, x3]"
    using To4_length length4E by blast
  show ?thesis
    by (simp add: Contains_def nnm_v4 Some x upt4)
qed

lemma byte_and_ff: "(x :: byte) AND 0xff = x"
proof -
  have "(0xff :: byte) = - 1" by simp
  then show ?thesis by (simp only: and.right_neutral)
qed

lemma nnm_loopback:
  "networkNumberAndMask \<lparr>IP = IPv6loopback, Mask = CIDRMask 128 128\<rparr>
     = (IPv6loopback, replicate 16 0xff)"
  by (simp add: networkNumberAndMask_def To4_loopback CIDRMask_128_128 length_IPv6loopback)

lemma Contains_loopback6:
  "Contains \<lparr>IP = IPv6loopback, Mask = CIDRMask 128 128\<rparr> ip \<longleftrightarrow> ip = IPv6loopback"
proof (cases "To4 ip")
  case None
  have "Contains \<lparr>IP = IPv6loopback, Mask = CIDRMask 128 128\<rparr> ip \<longleftrightarrow>
          length ip = 16 \<and> (\<forall>i<length ip. IPv6loopback ! i = ip ! i)"
    by (auto simp add: Contains_def nnm_loopback None list_all_iff byte_and_ff Let_def
        length_IPv6loopback)
  also have "\<dots> \<longleftrightarrow> ip = IPv6loopback"
    using length_IPv6loopback by (auto intro: nth_equalityI)
  finally show ?thesis .
next
  case (Some x)
  then have "length x = 4" by (rule To4_length)
  moreover have "ip \<noteq> IPv6loopback"
    using Some To4_loopback by auto
  ultimately show ?thesis
    by (simp add: Contains_def nnm_loopback Some length_IPv6loopback Let_def)
qed

lemma unat_and_c0: "unat ((b :: byte) AND 192) = 64 \<longleftrightarrow> 64 \<le> unat b \<and> unat b \<le> 127"
proof -
  have "\<forall>b::byte. (unat (b AND 192) = 64 \<longleftrightarrow> 64 \<le> unat b \<and> unat b \<le> 127)"
    by code_simp
  then show ?thesis by blast
qed

lemma unat_and_f0: "unat ((b :: byte) AND 240) = 16 \<longleftrightarrow> 16 \<le> unat b \<and> unat b \<le> 31"
proof -
  have "\<forall>b::byte. (unat (b AND 240) = 16 \<longleftrightarrow> 16 \<le> unat b \<and> unat b \<le> 31)"
    by code_simp
  then show ?thesis by blast
qed

lemma byte_numeral_eq: "(numeral k :: byte) = x \<longleftrightarrow> unat x = unat (numeral k :: byte)"
  by (auto simp only: word_unat_eq_iff)

lemma octets_None: "To4 ip = None \<Longrightarrow> octets ip = None"
  by (simp add: octets_def)

lemma octets_Some:
  "To4 ip = Some [a, b, c, d] \<Longrightarrow> octets ip = Some (unat a, unat b, unat c, unat d)"
  by (simp add: octets_def)

lemma tailscale_iff:
  "list_ex (\<lambda>ipNet. Contains ipNet ip) tailscaleIPNets \<longleftrightarrow> in_100_64_0_0_10 ip"
proof (cases "To4 ip")
  case None
  then show ?thesis
    by (simp add: tailscaleIPNets_def CIDRMask_10_32 Contains_v4net in_100_64_0_0_10_def octets_None)
next
  case (Some x)
  then obtain x0 x1 x2 x3 where x: "x = [x0, x1, x2, x3]"
    using To4_length length4E by blast
  show ?thesis
    using Some unfolding x
    by (simp add: tailscaleIPNets_def CIDRMask_10_32 Contains_v4net in_100_64_0_0_10_def
        octets_Some byte_and_ff unat_and_c0 byte_numeral_eq)
qed

lemma privateLan_iff:
  "list_ex (\<lambda>ipNet. Contains ipNet ip) privateLanIPNets \<longleftrightarrow>
     in_10_0_0_0_8 ip \<or> in_172_16_0_0_12 ip \<or> in_192_168_0_0_16 ip"
proof (cases "To4 ip")
  case None
  then show ?thesis
    by (simp add: privateLanIPNets_def CIDRMask_8_32 CIDRMask_12_32 CIDRMask_16_32 Contains_v4net
        in_10_0_0_0_8_def in_172_16_0_0_12_def in_192_168_0_0_16_def octets_None)
next
  case (Some x)
  then obtain x0 x1 x2 x3 where x: "x = [x0, x1, x2, x3]"
    using To4_length length4E by blast
  show ?thesis
    using Some unfolding x
    by (simp add: privateLanIPNets_def CIDRMask_8_32 CIDRMask_12_32 CIDRMask_16_32 Contains_v4net
        in_10_0_0_0_8_def in_172_16_0_0_12_def in_192_168_0_0_16_def
        octets_Some byte_and_ff unat_and_f0 byte_numeral_eq)
qed

lemma localhost_iff:
  "list_ex (\<lambda>ipNet. Contains ipNet ip) localhostIPNets \<longleftrightarrow>
     in_127_0_0_0_8 ip \<or> ip = IPv6loopback"
proof (cases "To4 ip")
  case None
  then show ?thesis
    by (simp add: localhostIPNets_def CIDRMask_8_32 Contains_v4net Contains_loopback6
        in_127_0_0_0_8_def octets_None)
next
  case (Some x)
  then obtain x0 x1 x2 x3 where x: "x = [x0, x1, x2, x3]"
    using To4_length length4E by blast
  show ?thesis
    using Some unfolding x
    by (simp add: localhostIPNets_def CIDRMask_8_32 Contains_v4net Contains_loopback6
        in_127_0_0_0_8_def octets_Some byte_and_ff byte_numeral_eq)
qed

text \<open>With a parsed address, \<^verbatim>\<open>GetLocationByIP\<close> is the classifier of the specification,
  followed by the database lookup when no range matches.\<close>

lemma GetLocationByIP_parsed:
  assumes "ipAddress \<noteq> []" and "ParseIP rt ipAddress = Some ip"
  shows "GetLocationByIP rt c s ipAddress w =
           (case spec_Classify (localIPv6Ranges s) ip of
              Some (country, city) \<Rightarrow> ((country, city, None), w)
            | None \<Rightarrow> lookupInDatabase rt c ipAddress w)"
  using assms
  by (simp add: GetLocationByIP_def spec_Classify_def isLocalIPv6_def
      tailscale_iff privateLan_iff localhost_iff)

subsection \<open>The worked configuration, evaluated\<close>

lemmas example_defs = example_runtime_def example_config_def example_archive_def
  example_client_def example_world_def example_service_def example_fresh_world_def
  example_empty_world_def

lemmas run_defs = UpdateDatabase_def isDatabaseUpToDate_def time_Since_def time_Hour_def
  extractDatabase_def TypeReg_def maxTotalSize_def fs_defs Let_def

lemma example_ParseIP:
  "ParseIP example_runtime ''::1'' = Some IPv6loopback"
  "ParseIP example_runtime ''100.64.0.1'' = Some (IPv4 100 64 0 1)"
  "ParseIP example_runtime ''10.1.2.3'' = Some (IPv4 10 1 2 3)"
  "ParseIP example_runtime ''127.0.0.1'' = Some (IPv4 127 0 0 1)"
  "ParseIP example_runtime ''8.8.8.8'' = Some (IPv4 8 8 8 8)"
  by (simp_all add: example_runtime_def)

lemma example_ranges:
  "in_100_64_0_0_10 (IPv4 100 64 0 1)"
  "in_10_0_0_0_8 (IPv4 10 1 2 3)"
  "in_127_0_0_0_8 (IPv4 127 0 0 1)"
  by (simp_all add: in_100_64_0_0_10_def in_10_0_0_0_8_def in_127_0_0_0_8_def octets_def To4_IPv4)

lemma example_classified:
  "spec_Classify (localIPv6Ranges (example_service [] 0)) IPv6loopback
     = Some (''Internal Network'', ''LAN'')"
  "spec_Classify (localIPv6Ranges (example_service [] 0)) (IPv4 100 64 0 1)
     = Some (''Internal Network'', ''Tailscale'')"
  "spec_Classify (localIPv6Ranges (example_service [] 0)) (IPv4 10 1 2 3)
     = Some (''Internal Network'', ''LAN'')"
  "spec_Classify (localIPv6Ranges (example_service [] 0)) (IPv4 127 0 0 1)
     = Some (''Internal Network'', ''localhost'')"
  "spec_Classify (localIPv6Ranges (example_service [] 0)) (IPv4 8 8 8 8) = None"
  by code_simp+

lemma example_lookup:
  "lookupInDatabase example_runtime example_config ''8.8.8.8'' example_world
     = (([], [], None), example_world\<lparr>trace := [MmdbOpen ''/data/GeoLite2-City.mmdb'' True]\<rparr>)"
  by (simp add: lookupInDatabase_def maxminddb_Open_def names_en_def example_defs)

lemma example_split:
  "Split (LocalIPv6Ranges example_config) CHR '','' = [''fd00::/8'', '' 10.0.0.0/8'']"
  by (simp add: example_config_def)

text \<open>A trace that renames a staging file onto the database path without opening it first,
  or after writing to it again, does not pass.\<close>

lemma unvalidated_promotion_rejected:
  "\<not> validated_promotions p [] [FsCreateTemp t, FsWrite t True, FsRename t p True]"
  "\<not> validated_promotions p []
       [FsCreateTemp t, FsWrite t True, MmdbOpen t True, FsWrite t True, FsRename t p True]"
  "\<not> validated_promotions p []
       [FsCreateTemp t, FsWrite t True, MmdbOpen t False, FsRename t p True]"
  by simp_all

text \<open>An update that goes through: the new file is at the database path, with the data of
  the archive entry, and the staging file is gone.\<close>

lemma example_install:
  "fst (UpdateDatabase example_runtime example_config (example_service [0xab, 7] 2) example_world)
     = None"
  "files (snd (UpdateDatabase example_runtime example_config (example_service [0xab, 7] 2)
      example_world)) ''/data/GeoLite2-City.mmdb''
     = Some \<lparr>content = [0xab, 7], modTime = 30 * 24 * 3600000000000\<rparr>"
  "files (snd (UpdateDatabase example_runtime example_config (example_service [0xab, 7] 2)
      example_world)) ''/data/geolite.1.mmdb.tmp'' = None"
  by (simp_all add: example_defs run_defs)

text \<open>The archive with two matching entries: their sizes add up to 400 MiB, and the update
  installs the first of them.\<close>

lemma example_big_data_facts:
  "length example_big_data = 209715200"
  "take 1 example_big_data = [0xab]"
  "take (Suc 0) example_big_data = [0xab]"
  by (simp_all add: example_big_data_def)

lemma example_two_entries_total:
  "spec_matching_total example_runtime example_two_entries = 419430400"
  by (simp add: example_two_entries_def example_runtime_def)

lemma example_two_entries_run:
  "fst (UpdateDatabase example_runtime example_config example_two_entry_service example_world) = None"
  "files (snd (UpdateDatabase example_runtime example_config example_two_entry_service
      example_world)) ''/data/GeoLite2-City.mmdb''
     = Some \<lparr>content = example_big_data, modTime = 30 * 24 * 3600000000000\<rparr>"
  by (simp_all add: example_two_entry_service_def example_two_entries_def example_defs run_defs
      example_big_data_facts)

subsection \<open>Lookup\<close>

text \<open>
  C9. For the empty input string the lookup returns an empty country, an empty city and no
  error; nothing outside the service is touched.
\<close>

theorem empty_address_no_error:
  "GetLocationByIP rt c s [] w = (([], [], None), w)"
  by (simp add: GetLocationByIP_def)

text \<open>
  C6. For every address that \<^verbatim>\<open>net.ParseIP\<close> accepts, the lookup goes through the ranges in
  the order of the specification and the first match decides: an IPv6 address in a
  configured local range is Internal Network / LAN; else an address in 100.64.0.0/10 is
  Internal Network / Tailscale; else one in 10.0.0.0/8, 172.16.0.0/12 or 192.168.0.0/16 is
  Internal Network / LAN; else one in 127.0.0.0/8 or equal to ::1 is Internal Network /
  localhost; else the lookup goes on to the database. A match returns no error and leaves
  the world as it is.
\<close>

theorem classifier_precedence:
  assumes "ipAddress \<noteq> []" and "ParseIP rt ipAddress = Some ip"
  shows "GetLocationByIP rt c s ipAddress w =
           (case spec_Classify (localIPv6Ranges s) ip of
              Some (country, city) \<Rightarrow> ((country, city, None), w)
            | None \<Rightarrow> lookupInDatabase rt c ipAddress w)"
  using assms by (rule GetLocationByIP_parsed)

theorem classifier_precedence_witness:
  "GetLocationByIP example_runtime example_config (example_service [] 0) ''::1'' example_world
     = ((''Internal Network'', ''LAN'', None), example_world)
   \<and> GetLocationByIP example_runtime example_config (example_service [] 0) ''100.64.0.1'' example_world
     = ((''Internal Network'', ''Tailscale'', None), example_world)
   \<and> GetLocationByIP example_runtime example_config (example_service [] 0) ''10.1.2.3'' example_world
     = ((''Internal Network'', ''LAN'', None), example_world)
   \<and> GetLocationByIP example_runtime example_config (example_service [] 0) ''127.0.0.1'' example_world
     = ((''Internal Network'', ''localhost'', None), example_world)
   \<and> GetLocationByIP example_runtime example_config (example_service [] 0) ''8.8.8.8'' example_world
     = (([], [], None), example_world\<lparr>trace := [MmdbOpen ''/data/GeoLite2-City.mmdb'' True]\<rparr>)"
  using classifier_precedence [OF _ example_ParseIP(1), of example_config "example_service [] 0" example_world]
    classifier_precedence [OF _ example_ParseIP(2), of example_config "example_service [] 0" example_world]
    classifier_precedence [OF _ example_ParseIP(3), of example_config "example_service [] 0" example_world]
    classifier_precedence [OF _ example_ParseIP(4), of example_config "example_service [] 0" example_world]
    classifier_precedence [OF _ example_ParseIP(5), of example_config "example_service [] 0" example_world]
  by (simp add: example_classified example_lookup)

text \<open>
  C7. For every parsed address in 100.64.0.0/10, in 10.0.0.0/8, 172.16.0.0/12 or
  192.168.0.0/16, in 127.0.0.0/8, or equal to ::1, the lookup returns the internal label of
  its range with no error, and the world is unchanged: nothing is added to the trace, so
  the database file is not opened. For ::1 the label is localhost unless a configured local
  range contains ::1, which is checked first and gives LAN.
\<close>

theorem internal_ranges_skip_database:
  assumes "ipAddress \<noteq> []" and "ParseIP rt ipAddress = Some ip"
  shows "(in_100_64_0_0_10 ip \<longrightarrow>
            GetLocationByIP rt c s ipAddress w = ((''Internal Network'', ''Tailscale'', None), w))
       \<and> (in_10_0_0_0_8 ip \<or> in_172_16_0_0_12 ip \<or> in_192_168_0_0_16 ip \<longrightarrow>
            GetLocationByIP rt c s ipAddress w = ((''Internal Network'', ''LAN'', None), w))
       \<and> (in_127_0_0_0_8 ip \<longrightarrow>
            GetLocationByIP rt c s ipAddress w = ((''Internal Network'', ''localhost'', None), w))
       \<and> (ip = IPv6loopback \<longrightarrow>
            GetLocationByIP rt c s ipAddress w =
              ((''Internal Network'',
                if list_ex (\<lambda>r. Contains r ip) (localIPv6Ranges s) then ''LAN'' else ''localhost'',
                None), w))"
proof -
  have oct: "octets ip \<noteq> None \<Longrightarrow> To4 ip \<noteq> None"
    by (cases "To4 ip") (simp_all add: octets_def)
  have lo: "octets IPv6loopback = None"
    by (simp add: octets_None To4_loopback)
  note defs = spec_Classify_def in_100_64_0_0_10_def in_10_0_0_0_8_def in_172_16_0_0_12_def
    in_192_168_0_0_16_def in_127_0_0_0_8_def
  have 1: "in_100_64_0_0_10 ip \<Longrightarrow>
             spec_Classify (localIPv6Ranges s) ip = Some (''Internal Network'', ''Tailscale'')"
    using oct by (auto simp: defs split: option.splits)
  have 2: "in_10_0_0_0_8 ip \<or> in_172_16_0_0_12 ip \<or> in_192_168_0_0_16 ip \<Longrightarrow>
             spec_Classify (localIPv6Ranges s) ip = Some (''Internal Network'', ''LAN'')"
    using oct by (auto simp: defs split: option.splits)
  have 3: "in_127_0_0_0_8 ip \<Longrightarrow>
             spec_Classify (localIPv6Ranges s) ip = Some (''Internal Network'', ''localhost'')"
    using oct by (auto simp: defs split: option.splits)
  have 4: "ip = IPv6loopback \<Longrightarrow>
             spec_Classify (localIPv6Ranges s) ip =
               Some (''Internal Network'',
                     if list_ex (\<lambda>r. Contains r ip) (localIPv6Ranges s) then ''LAN''
                     else ''localhost'')"
    by (simp add: defs lo To4_loopback)
  show ?thesis
    using 1 2 3 4 by (simp add: GetLocationByIP_parsed [OF assms])
qed

theorem internal_ranges_skip_database_witness:
  "GetLocationByIP example_runtime example_config (example_service [] 0) ''100.64.0.1'' example_world
     = ((''Internal Network'', ''Tailscale'', None), example_world)
   \<and> GetLocationByIP example_runtime example_config (example_service [] 0) ''10.1.2.3'' example_world
     = ((''Internal Network'', ''LAN'', None), example_world)
   \<and> GetLocationByIP example_runtime example_config (example_service [] 0) ''127.0.0.1'' example_world
     = ((''Internal Network'', ''localhost'', None), example_world)
   \<and> GetLocationByIP example_runtime example_config (example_service [] 0) ''::1'' example_world
     = ((''Internal Network'', ''LAN'', None), example_world)
   \<and> GetLocationByIP example_runtime example_config
         ((example_service [] 0)\<lparr>localIPv6Ranges := []\<rparr>) ''::1'' example_world
     = ((''Internal Network'', ''localhost'', None), example_world)"
proof -
  have c: "list_ex (\<lambda>r. Contains r IPv6loopback) (localIPv6Ranges (example_service [] 0))"
    by code_simp
  from internal_ranges_skip_database [OF _ example_ParseIP(2), of example_config "example_service [] 0" example_world]
    internal_ranges_skip_database [OF _ example_ParseIP(3), of example_config "example_service [] 0" example_world]
    internal_ranges_skip_database [OF _ example_ParseIP(4), of example_config "example_service [] 0" example_world]
    internal_ranges_skip_database [OF _ example_ParseIP(1), of example_config "example_service [] 0" example_world]
    internal_ranges_skip_database [OF _ example_ParseIP(1), of example_config
      "(example_service [] 0)\<lparr>localIPv6Ranges := []\<rparr>" example_world]
  show ?thesis
    by (simp add: example_ranges c)
qed

subsection \<open>Construction\<close>

lemma initializeIPv6LocalRanges_keeps:
  "initializeIPv6LocalRanges rt c s w = (e, s', w') \<Longrightarrow>
     disableUpdater s' = disableUpdater s \<and> httpClient s' = httpClient s
     \<and> files w' = files w \<and> trace w' = trace w"
  by (auto simp: initializeIPv6LocalRanges_def Let_def split: if_splits sum.splits)

lemma NewGeoLiteService_disableUpdater:
  "disableUpdater (fst (NewGeoLiteService rt c client w)) \<longleftrightarrow>
     MaxMindLicenseKey c = [] \<and> GeoLiteDBUrl c = MaxMindGeoLiteCityUrl c"
proof -
  obtain e s' w' where i: "initializeIPv6LocalRanges rt c
      \<lparr>httpClient = client,
         disableUpdater = (MaxMindLicenseKey c = [] \<and> GeoLiteDBUrl c = MaxMindGeoLiteCityUrl c),
         localIPv6Ranges = []\<rparr>
      (if MaxMindLicenseKey c = [] \<and> GeoLiteDBUrl c = MaxMindGeoLiteCityUrl c
       then w\<lparr>logs := logs w @
         [(Warn, ''MAXMIND_LICENSE_KEY environment variable is empty: the GeoLite2 City database won't be updated'')]\<rparr>
       else w) = (e, s', w')"
    using prod_cases3 by blast
  from initializeIPv6LocalRanges_keeps [OF i] i show ?thesis
    by (cases e) (auto simp: NewGeoLiteService_def Let_def split: if_splits)
qed

lemma parseRanges_bad_entry:
  assumes "entry \<in> set ranges" and "TrimSpace rt entry \<noteq> []"
    and "ParseCIDR rt (TrimSpace rt entry) = None
         \<or> (\<exists>n. ParseCIDR rt (TrimSpace rt entry) = Some n \<and> To4 (IP n) \<noteq> None)"
  shows "\<exists>e. parseRanges rt ranges localRanges = Inl e"
  using assms
proof (induction ranges arbitrary: localRanges)
  case Nil
  then show ?case by simp
next
  case (Cons a ranges)
  show ?case
  proof (cases "a = entry")
    case True
    with Cons.prems show ?thesis
      by (auto simp: Let_def split: option.splits)
  next
    case False
    with Cons.prems have "entry \<in> set ranges" by simp
    from Cons.IH [OF this Cons.prems(2,3)] show ?thesis
      by (auto simp: Let_def split: option.splits)
  qed
qed

text \<open>
  C3, as stated, fails. With an empty license key and a database URL other than the
  default one, the constructed service does not report its updater as disabled: the
  constructor sets the flag only when the key is empty and the URL is the default.
\<close>

theorem empty_key_custom_url_keeps_updater:
  "MaxMindLicenseKey (example_config\<lparr>GeoLiteDBUrl := ''https://mirror.example/GeoLite2-City.tar.gz''\<rparr>) = []
   \<and> \<not> DisableUpdater (fst (NewGeoLiteService example_runtime
         (example_config\<lparr>GeoLiteDBUrl := ''https://mirror.example/GeoLite2-City.tar.gz''\<rparr>)
         (example_client [] 0) example_world))"
  by (simp add: DisableUpdater_def NewGeoLiteService_disableUpdater example_config_def)

text \<open>
  C3, as amended. If the license key is empty and the configured database URL is the
  default MaxMind URL, the constructed service reports its updater as disabled.
\<close>

theorem empty_key_default_url_disables_updater:
  assumes "MaxMindLicenseKey c = []" and "GeoLiteDBUrl c = MaxMindGeoLiteCityUrl c"
  shows "DisableUpdater (fst (NewGeoLiteService rt c client w))"
  using assms by (simp add: DisableUpdater_def NewGeoLiteService_disableUpdater)

theorem empty_key_default_url_disables_updater_witness:
  "MaxMindLicenseKey example_config = []
   \<and> GeoLiteDBUrl example_config = MaxMindGeoLiteCityUrl example_config
   \<and> DisableUpdater (fst (NewGeoLiteService example_runtime example_config (example_client [] 0)
         example_world))"
proof -
  have 1: "MaxMindLicenseKey example_config = []"
    and 2: "GeoLiteDBUrl example_config = MaxMindGeoLiteCityUrl example_config"
    by (simp_all add: example_config_def)
  from empty_key_default_url_disables_updater [OF 1 2] 1 2 show ?thesis
    by simp
qed

text \<open>
  C8. If the configured list of local IPv6 ranges has an entry that is not empty after
  trimming and that fails to parse as a CIDR range or parses as an IPv4 range, the
  constructor still returns a service: its set of local ranges is empty, the failure is
  logged as a warning (after the license-key warning, when that applies), no address is
  local IPv6, and the lookup of a parsed address is the classifier over the empty set,
  so that the built-in ranges still apply.
\<close>

theorem invalid_local_ranges_degrade:
  assumes "LocalIPv6Ranges c \<noteq> []"
    and "entry \<in> set (Split (LocalIPv6Ranges c) CHR '','')"
    and "TrimSpace rt entry \<noteq> []"
    and "ParseCIDR rt (TrimSpace rt entry) = None
         \<or> (\<exists>n. ParseCIDR rt (TrimSpace rt entry) = Some n \<and> To4 (IP n) \<noteq> None)"
    and "NewGeoLiteService rt c client w = (s, w')"
  shows "localIPv6Ranges s = []
       \<and> logs w' = logs w
           @ (if MaxMindLicenseKey c = [] \<and> GeoLiteDBUrl c = MaxMindGeoLiteCityUrl c
              then [(Warn, ''MAXMIND_LICENSE_KEY environment variable is empty: the GeoLite2 City database won't be updated'')]
              else [])
           @ [(Warn, ''Failed to initialize IPv6 local ranges'')]
       \<and> \<not> isLocalIPv6 s ip
       \<and> (ipAddress \<noteq> [] \<and> ParseIP rt ipAddress = Some ip \<longrightarrow>
            GetLocationByIP rt c s ipAddress w0 =
              (case spec_Classify [] ip of
                 Some (country, city) \<Rightarrow> ((country, city, None), w0)
               | None \<Rightarrow> lookupInDatabase rt c ipAddress w0))"
proof -
  obtain e where e: "parseRanges rt (Split (LocalIPv6Ranges c) CHR '','') [] = Inl e"
    using parseRanges_bad_entry [OF assms(2,3,4)] by blast
  have init: "initializeIPv6LocalRanges rt c s0 w1 = (Some e, s0, w1)" for s0 w1
    using assms(1) e by (simp add: initializeIPv6LocalRanges_def)
  from assms(5) have s: "localIPv6Ranges s = []"
    and l: "logs w' = logs w
           @ (if MaxMindLicenseKey c = [] \<and> GeoLiteDBUrl c = MaxMindGeoLiteCityUrl c
              then [(Warn, ''MAXMIND_LICENSE_KEY environment variable is empty: the GeoLite2 City database won't be updated'')]
              else [])
           @ [(Warn, ''Failed to initialize IPv6 local ranges'')]"
    by (auto simp: NewGeoLiteService_def init Let_def split: if_splits)
  have "\<not> isLocalIPv6 s ip"
    by (simp add: isLocalIPv6_def s)
  moreover have "GetLocationByIP rt c s ipAddress w0 =
              (case spec_Classify [] ip of
                 Some (country, city) \<Rightarrow> ((country, city, None), w0)
               | None \<Rightarrow> lookupInDatabase rt c ipAddress w0)"
    if "ipAddress \<noteq> []" "ParseIP rt ipAddress = Some ip"
    using GetLocationByIP_parsed [OF that, of c s w0] by (simp add: s)
  ultimately show ?thesis
    using s l by blast
qed

theorem invalid_local_ranges_degrade_witness:
  "'' 10.0.0.0/8'' \<in> set (Split (LocalIPv6Ranges example_config) CHR '','')
   \<and> TrimSpace example_runtime '' 10.0.0.0/8'' = ''10.0.0.0/8''
   \<and> ParseCIDR example_runtime ''10.0.0.0/8'' = Some \<lparr>IP = [10, 0, 0, 0], Mask = CIDRMask 8 32\<rparr>
   \<and> To4 [10, 0, 0, 0] \<noteq> None
   \<and> localIPv6Ranges (fst (NewGeoLiteService example_runtime example_config (example_client [] 0)
         example_world)) = []
   \<and> logs (snd (NewGeoLiteService example_runtime example_config (example_client [] 0)
         example_world))
       = [(Warn, ''MAXMIND_LICENSE_KEY environment variable is empty: the GeoLite2 City database won't be updated''),
          (Warn, ''Failed to initialize IPv6 local ranges'')]
   \<and> GetLocationByIP example_runtime example_config
         (fst (NewGeoLiteService example_runtime example_config (example_client [] 0) example_world))
         ''::1'' example_world
       = ((''Internal Network'', ''localhost'', None), example_world)"
proof -
  let ?n = "NewGeoLiteService example_runtime example_config (example_client [] 0) example_world"
  have 1: "LocalIPv6Ranges example_config \<noteq> []"
    by (simp add: example_config_def)
  have 2: "'' 10.0.0.0/8'' \<in> set (Split (LocalIPv6Ranges example_config) CHR '','')"
    by (simp add: example_split)
  have t: "TrimSpace example_runtime '' 10.0.0.0/8'' = ''10.0.0.0/8''"
    by (simp add: example_runtime_def)
  have 3: "TrimSpace example_runtime '' 10.0.0.0/8'' \<noteq> []"
    by (simp add: t)
  have p: "ParseCIDR example_runtime ''10.0.0.0/8'' = Some \<lparr>IP = [10, 0, 0, 0], Mask = CIDRMask 8 32\<rparr>"
    by (simp add: example_runtime_def)
  have v: "To4 [10, 0, 0, 0] \<noteq> None"
    by (simp add: To4_def)
  have 4: "ParseCIDR example_runtime (TrimSpace example_runtime '' 10.0.0.0/8'') = None
         \<or> (\<exists>n. ParseCIDR example_runtime (TrimSpace example_runtime '' 10.0.0.0/8'') = Some n
                \<and> To4 (IP n) \<noteq> None)"
    using v by (simp add: t p)
  have 5: "?n = (fst ?n, snd ?n)"
    by simp
  have k: "MaxMindLicenseKey example_config = [] \<and> GeoLiteDBUrl example_config = MaxMindGeoLiteCityUrl example_config"
    and l: "logs example_world = []"
    by (simp_all add: example_config_def example_world_def)
  have c: "spec_Classify [] IPv6loopback = Some (''Internal Network'', ''localhost'')"
    by code_simp
  from invalid_local_ranges_degrade [OF 1 2 3 4 5, of IPv6loopback "''::1''" example_world]
    2 t p v k l example_ParseIP(1) c
  show ?thesis
    by simp
qed

subsection \<open>Update\<close>

lemma extractEntries_Next:
  "extractEntries rt c (Next h data readOk # rest) totalSize w =
     (if Typeflag h = TypeReg \<and> filepath_Base rt (Name h) = ''GeoLite2-City.mmdb''
      then if maxTotalSize < sint (totalSize + Size h) then (Some ErrSizeLimit, w)
           else stageEntry rt c data readOk w
      else extractEntries rt c rest totalSize w)"
  by (simp add: stageEntry_def Let_def)

lemma stageEntry_trace:
  "stageEntry rt c data readOk w = (r, w') \<Longrightarrow> trace w' = trace w @ added w w'"
  by (auto simp: stageEntry_def fs_defs added_def Let_def
      split: option.splits if_splits prod.splits)

lemma stageEntry_validated:
  "stageEntry rt c data readOk w = (r, w') \<Longrightarrow>
     validated_promotions (GeoLiteDBPath c) [] (added w w')"
  by (auto simp: stageEntry_def fs_defs added_def Let_def
      split: option.splits if_splits prod.splits)

lemma stageEntry_open_failed:
  "stageEntry rt c data readOk w = (r, w') \<Longrightarrow> MmdbOpen t False \<in> set (added w w') \<Longrightarrow>
     r \<noteq> None \<and> last (trace w') = FsRemove t (RemoveOk rt t)
     \<and> (RemoveOk rt t \<longrightarrow> files w' t = None)"
  by (auto simp: stageEntry_def fs_defs added_def Let_def
      split: option.splits if_splits prod.splits)

lemma stageEntry_error_frame:
  "stageEntry rt c data readOk w = (Some e, w') \<Longrightarrow>
   TempName rt (filepath_Dir rt (GeoLiteDBPath c)) ''geolite.*.mmdb.tmp''
     \<noteq> Some (GeoLiteDBPath c) \<Longrightarrow>
     files w' (GeoLiteDBPath c) = files w (GeoLiteDBPath c)
     \<and> list_all (\<lambda>ev. \<not> mutates (GeoLiteDBPath c) ev) (added w w')"
  by (auto simp: stageEntry_def fs_defs added_def Let_def
      split: option.splits if_splits prod.splits)

lemma stageEntry_not_size_limit:
  "stageEntry rt c data readOk w = (r, w') \<Longrightarrow> r \<noteq> Some ErrSizeLimit"
  by (auto simp: stageEntry_def fs_defs Let_def split: option.splits if_splits prod.splits)

lemma added_same: "added w w = []"
  by (simp add: added_def)

lemma extractEntries_trace:
  "extractEntries rt c entries totalSize w = (r, w') \<Longrightarrow> trace w' = trace w @ added w w'"
proof (induction rt c entries totalSize w rule: extractEntries.induct)
  case (3 rt c header data readOk rest totalSize w)
  then show ?case
    by (auto simp del: extractEntries.simps(3) simp add: extractEntries_Next added_same
        dest: stageEntry_trace split: if_splits)
qed (simp_all add: added_same)

lemma extractEntries_validated:
  "extractEntries rt c entries totalSize w = (r, w') \<Longrightarrow>
     validated_promotions (GeoLiteDBPath c) [] (added w w')"
proof (induction rt c entries totalSize w rule: extractEntries.induct)
  case (3 rt c header data readOk rest totalSize w)
  then show ?case
    by (auto simp del: extractEntries.simps(3) simp add: extractEntries_Next added_same
        dest: stageEntry_validated split: if_splits)
qed (simp_all add: added_same)

lemma extractEntries_open_failed:
  "extractEntries rt c entries totalSize w = (r, w') \<Longrightarrow>
   MmdbOpen t False \<in> set (added w w') \<Longrightarrow>
     r \<noteq> None \<and> last (trace w') = FsRemove t (RemoveOk rt t)
     \<and> (RemoveOk rt t \<longrightarrow> files w' t = None)"
proof (induction rt c entries totalSize w rule: extractEntries.induct)
  case (3 rt c header data readOk rest totalSize w)
  then show ?case
    by (auto simp del: extractEntries.simps(3) simp add: extractEntries_Next added_same
        dest: stageEntry_open_failed split: if_splits)
qed (simp_all add: added_same)

lemma extractEntries_error_frame:
  "extractEntries rt c entries totalSize w = (Some e, w') \<Longrightarrow>
   TempName rt (filepath_Dir rt (GeoLiteDBPath c)) ''geolite.*.mmdb.tmp''
     \<noteq> Some (GeoLiteDBPath c) \<Longrightarrow>
     files w' (GeoLiteDBPath c) = files w (GeoLiteDBPath c)
     \<and> list_all (\<lambda>ev. \<not> mutates (GeoLiteDBPath c) ev) (added w w')"
proof (induction rt c entries totalSize w rule: extractEntries.induct)
  case (3 rt c header data readOk rest totalSize w)
  then show ?case
    by (auto simp del: extractEntries.simps(3) simp add: extractEntries_Next added_same
        dest: stageEntry_error_frame split: if_splits)
qed (simp_all add: added_same)

lemma extractEntries_skip:
  "list_all (skipped rt) pre \<Longrightarrow>
   extractEntries rt c (pre @ entries) totalSize w = extractEntries rt c entries totalSize w"
proof (induction pre)
  case (Cons x pre)
  then show ?case
    by (cases x) (auto simp del: extractEntries.simps(3) simp add: extractEntries_Next)
qed simp

lemma extractDatabase_trace:
  "extractDatabase rt c reader w = (r, w') \<Longrightarrow> trace w' = trace w @ added w w'"
  by (cases reader) (auto simp: extractDatabase_def added_same dest: extractEntries_trace)

lemma extractDatabase_validated:
  "extractDatabase rt c reader w = (r, w') \<Longrightarrow>
     validated_promotions (GeoLiteDBPath c) [] (added w w')"
  by (cases reader) (auto simp: extractDatabase_def added_same dest: extractEntries_validated)

lemma extractDatabase_open_failed:
  "extractDatabase rt c reader w = (r, w') \<Longrightarrow>
   MmdbOpen t False \<in> set (added w w') \<Longrightarrow>
     r \<noteq> None \<and> last (trace w') = FsRemove t (RemoveOk rt t)
     \<and> (RemoveOk rt t \<longrightarrow> files w' t = None)"
  by (cases reader) (auto simp: extractDatabase_def added_same dest: extractEntries_open_failed)

lemma extractDatabase_error_frame:
  "extractDatabase rt c reader w = (Some e, w') \<Longrightarrow>
   TempName rt (filepath_Dir rt (GeoLiteDBPath c)) ''geolite.*.mmdb.tmp''
     \<noteq> Some (GeoLiteDBPath c) \<Longrightarrow>
     files w' (GeoLiteDBPath c) = files w (GeoLiteDBPath c)
     \<and> list_all (\<lambda>ev. \<not> mutates (GeoLiteDBPath c) ev) (added w w')"
  by (cases reader) (auto simp: extractDatabase_def added_same dest: extractEntries_error_frame)

lemma added_step:
  "trace w1 = trace w @ evs \<Longrightarrow> trace w' = trace w1 @ added w1 w' \<Longrightarrow>
     added w w' = evs @ added w1 w'"
proof -
  assume "trace w1 = trace w @ evs" and "trace w' = trace w1 @ added w1 w'"
  then have "trace w' = trace w @ (evs @ added w1 w')"
    by simp
  then have "drop (length (trace w)) (trace w') = evs @ added w1 w'"
    by simp
  then show ?thesis
    by (simp only: added_def [of w w'])
qed

lemma UpdateDatabase_cases:
  assumes "UpdateDatabase rt c s w = (r, w')"
  obtains
    (fresh) "isDatabaseUpToDate c w" "r = None"
      "w' = w\<lparr>logs := logs w @ [(Info, ''GeoLite2 City database is up-to-date'')]\<rparr>"
  | (norequest) "\<not> isDatabaseUpToDate c w" "\<not> NewRequest rt (downloadUrl rt c)"
      "r = Some ErrCreateRequest" "w' = updating w"
  | (nodownload) "\<not> isDatabaseUpToDate c w" "NewRequest rt (downloadUrl rt c)"
      "httpClient s (downloadUrl rt c) = None" "r = Some ErrDownload" "w' = requested rt c w"
  | (status) resp where "\<not> isDatabaseUpToDate c w" "NewRequest rt (downloadUrl rt c)"
      "httpClient s (downloadUrl rt c) = Some resp" "StatusCode resp \<noteq> 200"
      "r = Some (ErrHTTPStatus (StatusCode resp))" "w' = requested rt c w"
  | (failed) resp err where "\<not> isDatabaseUpToDate c w" "NewRequest rt (downloadUrl rt c)"
      "httpClient s (downloadUrl rt c) = Some resp" "StatusCode resp = 200"
      "extractDatabase rt c (Body resp) (requested rt c w) = (Some err, w')"
      "r = Some (ErrExtract err)"
  | (installed) resp w2 where "\<not> isDatabaseUpToDate c w" "NewRequest rt (downloadUrl rt c)"
      "httpClient s (downloadUrl rt c) = Some resp" "StatusCode resp = 200"
      "extractDatabase rt c (Body resp) (requested rt c w) = (None, w2)"
      "r = None"
      "w' = w2\<lparr>logs := logs w2 @ [(Info, ''GeoLite2 City database successfully updated.'')]\<rparr>"
  using assms
  by (auto simp: UpdateDatabase_def Let_def downloadUrl_def updating_def requested_def
      split: if_splits option.splits prod.splits)

lemma requested_simps:
  "trace (requested rt c w) = trace w @ [HttpGet (downloadUrl rt c)]"
  "files (requested rt c w) = files w"
  "trace (updating w) = trace w"
  "files (updating w) = files w"
  by (simp_all add: requested_def updating_def)

lemma added_logs: "added w (w'\<lparr>logs := l\<rparr>) = added w w'"
  by (simp add: added_def)

lemma added_updating: "added w (updating w) = []"
  by (simp add: added_def updating_def)

lemma added_requested: "added w (requested rt c w) = [HttpGet (downloadUrl rt c)]"
  by (simp add: added_def requested_def)

lemma added_extracted:
  "extractDatabase rt c reader (requested rt c w) = (r, w') \<Longrightarrow>
     added w w' = HttpGet (downloadUrl rt c) # added (requested rt c w) w'"
  using added_step [of "requested rt c w" w "[HttpGet (downloadUrl rt c)]" w']
  by (simp add: requested_simps extractDatabase_trace)

lemma isDatabaseUpToDate_iff:
  "isDatabaseUpToDate c w \<longleftrightarrow>
     (\<exists>info. files w (GeoLiteDBPath c) = Some info
        \<and> now w - modTime info < 14 * 24 * 3600 * 10 ^ 9)"
  by (auto simp: isDatabaseUpToDate_def time_Since_def time_Hour_def Let_def split: option.splits)

lemma UpdateDatabase_requests:
  assumes "\<not> isDatabaseUpToDate c w" and "NewRequest rt (downloadUrl rt c)"
  shows "take (Suc (length (trace w))) (trace (snd (UpdateDatabase rt c s w)))
           = trace w @ [HttpGet (downloadUrl rt c)]"
proof -
  obtain r w' where u: "UpdateDatabase rt c s w = (r, w')"
    by (cases "UpdateDatabase rt c s w")
  from u assms have "\<exists>evs. trace w' = trace w @ HttpGet (downloadUrl rt c) # evs"
  proof (cases rule: UpdateDatabase_cases)
    case (failed resp err)
    from extractDatabase_trace [OF failed(5)] show ?thesis
      by (simp add: requested_simps)
  next
    case (installed resp w2)
    from extractDatabase_trace [OF installed(5)] show ?thesis
      by (simp add: requested_simps installed(7))
  qed (simp_all add: requested_simps)
  then show ?thesis
    by (auto simp: u)
qed

text \<open>
  C1. Whenever \<^verbatim>\<open>UpdateDatabase\<close> returns an error, the file at the database path is what
  it was before the call (the same content and modification time, or still absent), and
  no file-system call of the run changed what is at that path. The staging name that
  \<^verbatim>\<open>os.CreateTemp\<close> picks is taken to differ from the database path.
\<close>

theorem update_error_leaves_database:
  assumes "UpdateDatabase rt c s w = (Some e, w')"
    and "TempName rt (filepath_Dir rt (GeoLiteDBPath c)) ''geolite.*.mmdb.tmp''
           \<noteq> Some (GeoLiteDBPath c)"
  shows "files w' (GeoLiteDBPath c) = files w (GeoLiteDBPath c)
       \<and> list_all (\<lambda>ev. \<not> mutates (GeoLiteDBPath c) ev) (added w w')"
  using assms(1)
proof (cases rule: UpdateDatabase_cases)
  case (failed resp err)
  from extractDatabase_error_frame [OF failed(5) assms(2)] added_extracted [OF failed(5)]
  show ?thesis
    by (simp add: requested_simps)
qed (simp_all add: requested_simps added_updating added_requested)

theorem update_error_leaves_database_witness:
  "fst (UpdateDatabase example_runtime example_config (example_service [1, 2] 2) example_world)
     = Some (ErrExtract ErrOpenDownloaded)
   \<and> files (snd (UpdateDatabase example_runtime example_config (example_service [1, 2] 2)
         example_world)) ''/data/GeoLite2-City.mmdb''
       = Some \<lparr>content = [0xab, 1], modTime = 0\<rparr>
   \<and> list_all (\<lambda>ev. \<not> mutates ''/data/GeoLite2-City.mmdb'' ev)
         (added example_world
            (snd (UpdateDatabase example_runtime example_config (example_service [1, 2] 2)
               example_world)))"
proof -
  let ?u = "UpdateDatabase example_runtime example_config (example_service [1, 2] 2) example_world"
  have r: "fst ?u = Some (ErrExtract ErrOpenDownloaded)"
    by (simp add: example_defs run_defs)
  then have u: "?u = (Some (ErrExtract ErrOpenDownloaded), snd ?u)"
    by (metis prod.collapse)
  have t: "TempName example_runtime (filepath_Dir example_runtime (GeoLiteDBPath example_config))
             ''geolite.*.mmdb.tmp'' \<noteq> Some (GeoLiteDBPath example_config)"
    by (simp add: example_defs)
  have p: "GeoLiteDBPath example_config = ''/data/GeoLite2-City.mmdb''"
    by (simp add: example_config_def)
  have f: "files example_world ''/data/GeoLite2-City.mmdb'' = Some \<lparr>content = [0xab, 1], modTime = 0\<rparr>"
    by (simp add: example_world_def)
  from update_error_leaves_database [OF u t] r show ?thesis
    unfolding p f by simp
qed

text \<open>
  C2. In every run of \<^verbatim>\<open>UpdateDatabase\<close> the trace only grows, and each rename onto the
  database path that the run attempts is of a staging file that \<^verbatim>\<open>maxminddb.Open\<close> opened
  successfully before, with no write to it in between. If opening a staging file fails,
  the run returns an error and its last call is the removal of that file, after which
  (when the removal succeeds) the file is gone.
\<close>

theorem staging_validated_before_promotion:
  assumes "UpdateDatabase rt c s w = (r, w')"
  shows "trace w' = trace w @ added w w'
       \<and> validated_promotions (GeoLiteDBPath c) [] (added w w')
       \<and> (MmdbOpen t False \<in> set (added w w') \<longrightarrow>
            r \<noteq> None \<and> last (trace w') = FsRemove t (RemoveOk rt t)
            \<and> (RemoveOk rt t \<longrightarrow> files w' t = None))"
  using assms
proof (cases rule: UpdateDatabase_cases)
  case (failed resp err)
  from extractDatabase_trace [OF failed(5)] extractDatabase_validated [OF failed(5)]
    extractDatabase_open_failed [OF failed(5), of t] added_extracted [OF failed(5)] failed(6)
  show ?thesis
    by (auto simp add: requested_simps)
next
  case (installed resp w2)
  from extractDatabase_trace [OF installed(5)] extractDatabase_validated [OF installed(5)]
    extractDatabase_open_failed [OF installed(5), of t] added_extracted [OF installed(5)]
  show ?thesis
    by (auto simp add: requested_simps installed(7) added_logs)
qed (simp_all add: requested_simps added_updating added_requested added_logs added_same)

theorem staging_validated_before_promotion_witness:
  "added example_world
     (snd (UpdateDatabase example_runtime example_config (example_service [1, 2] 2) example_world))
     = [HttpGet ''https://maxmind.example/geoip?license_key=&suffix=tar.gz'',
        FsCreateTemp ''/data/geolite.1.mmdb.tmp'',
        FsWrite ''/data/geolite.1.mmdb.tmp'' True,
        MmdbOpen ''/data/geolite.1.mmdb.tmp'' False,
        FsRemove ''/data/geolite.1.mmdb.tmp'' True]
   \<and> validated_promotions ''/data/GeoLite2-City.mmdb'' []
         (added example_world
            (snd (UpdateDatabase example_runtime example_config (example_service [1, 2] 2)
               example_world)))
   \<and> fst (UpdateDatabase example_runtime example_config (example_service [1, 2] 2) example_world)
       \<noteq> None
   \<and> last (trace (snd (UpdateDatabase example_runtime example_config (example_service [1, 2] 2)
         example_world)))
       = FsRemove ''/data/geolite.1.mmdb.tmp'' True
   \<and> files (snd (UpdateDatabase example_runtime example_config (example_service [1, 2] 2)
         example_world)) ''/data/geolite.1.mmdb.tmp'' = None
   \<and> added example_world
        (snd (UpdateDatabase example_runtime example_config (example_service [0xab, 7] 2)
           example_world))
     = [HttpGet ''https://maxmind.example/geoip?license_key=&suffix=tar.gz'',
        FsCreateTemp ''/data/geolite.1.mmdb.tmp'',
        FsWrite ''/data/geolite.1.mmdb.tmp'' True,
        MmdbOpen ''/data/geolite.1.mmdb.tmp'' True,
        FsRename ''/data/geolite.1.mmdb.tmp'' ''/data/GeoLite2-City.mmdb'' True]
   \<and> validated_promotions ''/data/GeoLite2-City.mmdb'' []
         (added example_world
            (snd (UpdateDatabase example_runtime example_config (example_service [0xab, 7] 2)
               example_world)))"
proof -
  let ?u = "UpdateDatabase example_runtime example_config (example_service [1, 2] 2) example_world"
  let ?v = "UpdateDatabase example_runtime example_config (example_service [0xab, 7] 2)
              example_world"
  have a: "added example_world (snd ?u)
     = [HttpGet ''https://maxmind.example/geoip?license_key=&suffix=tar.gz'',
        FsCreateTemp ''/data/geolite.1.mmdb.tmp'',
        FsWrite ''/data/geolite.1.mmdb.tmp'' True,
        MmdbOpen ''/data/geolite.1.mmdb.tmp'' False,
        FsRemove ''/data/geolite.1.mmdb.tmp'' True]"
    by (simp add: added_def example_defs run_defs)
  have b: "added example_world (snd ?v)
     = [HttpGet ''https://maxmind.example/geoip?license_key=&suffix=tar.gz'',
        FsCreateTemp ''/data/geolite.1.mmdb.tmp'',
        FsWrite ''/data/geolite.1.mmdb.tmp'' True,
        MmdbOpen ''/data/geolite.1.mmdb.tmp'' True,
        FsRename ''/data/geolite.1.mmdb.tmp'' ''/data/GeoLite2-City.mmdb'' True]"
    by (simp add: added_def example_defs run_defs)
  have u: "?u = (fst ?u, snd ?u)" and v: "?v = (fst ?v, snd ?v)"
    by simp_all
  have p: "GeoLiteDBPath example_config = ''/data/GeoLite2-City.mmdb''"
    by (simp add: example_config_def)
  have k: "RemoveOk example_runtime ''/data/geolite.1.mmdb.tmp''"
    by (simp add: example_runtime_def)
  from staging_validated_before_promotion [OF u, of "''/data/geolite.1.mmdb.tmp''"]
    staging_validated_before_promotion [OF v, of "''/data/geolite.1.mmdb.tmp''"] a b k
  show ?thesis
    unfolding p by simp
qed

text \<open>
  C4, as stated, fails. The sizes of the two matching entries of the archive add up to
  400 MiB, above the ceiling of 300 MiB, and still \<^verbatim>\<open>UpdateDatabase\<close> returns success
  and the database file has the content of the first entry in place of its old content:
  the loop returns at the first matching entry, so that the total never holds more than
  the size of one entry.
\<close>

theorem matching_total_over_limit_installs:
  "maxTotalSize < spec_matching_total example_runtime example_two_entries
   \<and> fst (UpdateDatabase example_runtime example_config example_two_entry_service example_world)
       = None
   \<and> files example_world ''/data/GeoLite2-City.mmdb''
       = Some \<lparr>content = [0xab, 1], modTime = 0\<rparr>
   \<and> files (snd (UpdateDatabase example_runtime example_config example_two_entry_service
         example_world)) ''/data/GeoLite2-City.mmdb''
       = Some \<lparr>content = example_big_data, modTime = 30 * 24 * 3600000000000\<rparr>
   \<and> length example_big_data = 209715200"
proof -
  have "files example_world ''/data/GeoLite2-City.mmdb''
          = Some \<lparr>content = [0xab, 1], modTime = 0\<rparr>"
    by (simp add: example_world_def)
  then show ?thesis
    by (simp add: example_two_entries_total example_two_entries_run example_big_data_facts
        maxTotalSize_def)
qed

text \<open>
  C4, as amended. The total that is compared with the ceiling is the header size of the
  first matching entry of the archive (a regular file whose base name is
  \<^verbatim>\<open>GeoLite2-City.mmdb\<close>), added to 0. When that size exceeds 300 MiB, \<^verbatim>\<open>UpdateDatabase\<close>
  stops with the size-limit error before any file is created: the world differs from the
  one before the call by a log line and the HTTP request only, so the installed database
  is unchanged. When it does not, the run never ends in the size-limit error, whatever
  entries follow in the archive.
\<close>

theorem size_limit_aborts_update:
  assumes "\<not> isDatabaseUpToDate c w"
    and "NewRequest rt (Sprintf rt (GeoLiteDBUrl c) (MaxMindLicenseKey c))"
    and "httpClient s (Sprintf rt (GeoLiteDBUrl c) (MaxMindLicenseKey c)) = Some resp"
    and "StatusCode resp = 200"
    and "Body resp = TarGz (pre @ Next h data readOk # rest)"
    and "list_all (skipped rt) pre"
    and "Typeflag h = TypeReg"
    and "filepath_Base rt (Name h) = ''GeoLite2-City.mmdb''"
  shows "(maxTotalSize < sint (Size h) \<longrightarrow>
           UpdateDatabase rt c s w =
             (Some (ErrExtract ErrSizeLimit),
              w\<lparr>logs := logs w @ [(Info, ''Updating GeoLite2 City database'')],
                trace := trace w
                  @ [HttpGet (Sprintf rt (GeoLiteDBUrl c) (MaxMindLicenseKey c))]\<rparr>))
       \<and> (\<not> maxTotalSize < sint (Size h) \<longrightarrow>
           fst (UpdateDatabase rt c s w) \<noteq> Some (ErrExtract ErrSizeLimit))"
proof -
  let ?w1 = "w\<lparr>logs := logs w @ [(Info, ''Updating GeoLite2 City database'')],
               trace := trace w @ [HttpGet (Sprintf rt (GeoLiteDBUrl c) (MaxMindLicenseKey c))]\<rparr>"
  have "extractEntries rt c (pre @ Next h data readOk # rest) 0 ?w1 =
          extractEntries rt c (Next h data readOk # rest) 0 ?w1"
    using assms(6) by (rule extractEntries_skip)
  also have "\<dots> = (if maxTotalSize < sint (Size h) then (Some ErrSizeLimit, ?w1)
                    else stageEntry rt c data readOk ?w1)"
    using assms(7,8) by (simp add: extractEntries_Next del: extractEntries.simps(3))
  finally have x: "extractDatabase rt c (Body resp) ?w1 =
                     (if maxTotalSize < sint (Size h) then (Some ErrSizeLimit, ?w1)
                      else stageEntry rt c data readOk ?w1)"
    by (simp add: extractDatabase_def assms(5))
  have over: "UpdateDatabase rt c s w = (Some (ErrExtract ErrSizeLimit), ?w1)"
    if "maxTotalSize < sint (Size h)"
    using assms(1-4) x that by (simp add: UpdateDatabase_def Let_def)
  have within: "fst (UpdateDatabase rt c s w) \<noteq> Some (ErrExtract ErrSizeLimit)"
    if "\<not> maxTotalSize < sint (Size h)"
  proof -
    obtain r w2 where st: "stageEntry rt c data readOk ?w1 = (r, w2)"
      by (cases "stageEntry rt c data readOk ?w1")
    from stageEntry_not_size_limit [OF st] have "r \<noteq> Some ErrSizeLimit" .
    then show ?thesis
      using assms(1-4) x that st
      by (cases r) (simp_all add: UpdateDatabase_def Let_def)
  qed
  from over within show ?thesis
    by blast
qed

theorem size_limit_aborts_update_witness:
  "\<not> isDatabaseUpToDate example_config example_world
   \<and> list_all (skipped example_runtime)
         [Next \<lparr>Typeflag = 0x35, Name = ''GeoLite2-City_20250101/'', Size = 0\<rparr> [] True]
   \<and> maxTotalSize < sint (419430400 :: 64 word)
   \<and> UpdateDatabase example_runtime example_config (example_service [] 419430400) example_world
       = (Some (ErrExtract ErrSizeLimit),
          example_world
            \<lparr>logs := [(Info, ''Updating GeoLite2 City database'')],
              trace := [HttpGet ''https://maxmind.example/geoip?license_key=&suffix=tar.gz'']\<rparr>)
   \<and> \<not> maxTotalSize < sint (209715200 :: 64 word)
   \<and> fst (UpdateDatabase example_runtime example_config example_two_entry_service example_world)
       \<noteq> Some (ErrExtract ErrSizeLimit)"
proof -
  let ?url = "Sprintf example_runtime (GeoLiteDBUrl example_config)
                (MaxMindLicenseKey example_config)"
  let ?resp = "\<lparr>StatusCode = 200, Body = TarGz (example_archive [] 419430400)\<rparr>"
  let ?dir = "Next \<lparr>Typeflag = 0x35, Name = ''GeoLite2-City_20250101/'', Size = 0\<rparr> [] True"
  let ?h = "\<lparr>Typeflag = TypeReg, Name = ''GeoLite2-City_20250101/GeoLite2-City.mmdb'',
             Size = 419430400\<rparr>"
  let ?resp2 = "\<lparr>StatusCode = 200, Body = TarGz example_two_entries\<rparr>"
  let ?h1 = "\<lparr>Typeflag = TypeReg, Name = ''first/GeoLite2-City.mmdb'', Size = 209715200\<rparr>"
  let ?h2 = "\<lparr>Typeflag = TypeReg, Name = ''second/GeoLite2-City.mmdb'', Size = 209715200\<rparr>"
  have 1: "\<not> isDatabaseUpToDate example_config example_world"
    by (simp add: example_defs isDatabaseUpToDate_def time_Since_def time_Hour_def)
  have 2: "NewRequest example_runtime ?url"
    by (simp add: example_runtime_def)
  have 3: "httpClient (example_service [] 419430400) ?url = Some ?resp"
    by (simp add: example_service_def example_client_def)
  have 4: "StatusCode ?resp = 200"
    by simp
  have 5: "Body ?resp = TarGz ([?dir] @ Next ?h [] True # [])"
    by (simp add: example_archive_def)
  have 6: "list_all (skipped example_runtime) [?dir]"
    by (simp add: example_runtime_def TypeReg_def)
  have 7: "Typeflag ?h = TypeReg"
    by simp
  have 8: "filepath_Base example_runtime (Name ?h) = ''GeoLite2-City.mmdb''"
    by (simp add: example_runtime_def)
  have 9: "maxTotalSize < sint (419430400 :: 64 word)"
    by (simp add: maxTotalSize_def)
  have 13: "httpClient example_two_entry_service ?url = Some ?resp2"
    by (simp add: example_two_entry_service_def)
  have 14: "StatusCode ?resp2 = 200"
    by simp
  have 15: "Body ?resp2 = TarGz ([] @ Next ?h1 example_big_data True
                                   # [Next ?h2 example_big_data True])"
    by (simp add: example_two_entries_def)
  have 16: "list_all (skipped example_runtime) []"
    by simp
  have 17: "Typeflag ?h1 = TypeReg"
    by simp
  have 18: "filepath_Base example_runtime (Name ?h1) = ''GeoLite2-City.mmdb''"
    by (simp add: example_runtime_def)
  have 19: "\<not> maxTotalSize < sint (209715200 :: 64 word)"
    by (simp add: maxTotalSize_def)
  have url: "?url = ''https://maxmind.example/geoip?license_key=&suffix=tar.gz''"
    by (simp add: example_runtime_def example_config_def)
  have l: "logs example_world = []" and t: "trace example_world = []"
    by (simp_all add: example_world_def)
  from size_limit_aborts_update [OF 1 2 3 4 5 6 7 8] 9
  have a: "UpdateDatabase example_runtime example_config (example_service [] 419430400)
             example_world
           = (Some (ErrExtract ErrSizeLimit),
              example_world
                \<lparr>logs := [(Info, ''Updating GeoLite2 City database'')],
                  trace := [HttpGet ''https://maxmind.example/geoip?license_key=&suffix=tar.gz'']\<rparr>)"
    unfolding url l t by simp
  from size_limit_aborts_update [OF 1 2 13 14 15 16 17 18] 19
  have b: "fst (UpdateDatabase example_runtime example_config example_two_entry_service
             example_world) \<noteq> Some (ErrExtract ErrSizeLimit)"
    by simp
  from 1 6 9 a 19 b show ?thesis
    by blast
qed

text \<open>
  C5. If the database file exists and was modified less than 14 days ago, \<^verbatim>\<open>UpdateDatabase\<close>
  returns success and changes nothing but the log: no HTTP request, no file-system call.
  If the file does not exist, the database is not up to date, and the run goes on to the
  download: when the request can be built, the next event of the trace is the GET of the
  formatted URL.
\<close>

theorem freshness_check:
  "(files w (GeoLiteDBPath c) = Some info \<and> now w - modTime info < 14 * 24 * 3600 * 10 ^ 9 \<longrightarrow>
      UpdateDatabase rt c s w =
        (None, w\<lparr>logs := logs w @ [(Info, ''GeoLite2 City database is up-to-date'')]\<rparr>))
   \<and> (files w (GeoLiteDBPath c) = None \<longrightarrow>
        \<not> isDatabaseUpToDate c w
        \<and> (NewRequest rt (Sprintf rt (GeoLiteDBUrl c) (MaxMindLicenseKey c)) \<longrightarrow>
             take (Suc (length (trace w))) (trace (snd (UpdateDatabase rt c s w)))
               = trace w @ [HttpGet (Sprintf rt (GeoLiteDBUrl c) (MaxMindLicenseKey c))]))"
proof -
  have "isDatabaseUpToDate c w"
    if "files w (GeoLiteDBPath c) = Some info" "now w - modTime info < 14 * 24 * 3600 * 10 ^ 9"
    using that by (simp add: isDatabaseUpToDate_iff)
  moreover have "\<not> isDatabaseUpToDate c w" if "files w (GeoLiteDBPath c) = None"
    using that by (simp add: isDatabaseUpToDate_def)
  ultimately show ?thesis
    using UpdateDatabase_requests [of c w rt s]
    by (auto simp: UpdateDatabase_def downloadUrl_def)
qed

theorem freshness_check_witness:
  "UpdateDatabase example_runtime example_config (example_service [0xab, 7] 2) example_fresh_world
     = (None, example_fresh_world\<lparr>logs := [(Info, ''GeoLite2 City database is up-to-date'')]\<rparr>)
   \<and> files example_empty_world ''/data/GeoLite2-City.mmdb'' = None
   \<and> \<not> isDatabaseUpToDate example_config example_empty_world
   \<and> take 1 (trace (snd (UpdateDatabase example_runtime example_config
         (example_service [0xab, 7] 2) example_empty_world)))
       = [HttpGet ''https://maxmind.example/geoip?license_key=&suffix=tar.gz'']"
proof -
  have p: "GeoLiteDBPath example_config = ''/data/GeoLite2-City.mmdb''"
    by (simp add: example_config_def)
  have f: "files example_fresh_world ''/data/GeoLite2-City.mmdb''
             = Some \<lparr>content = [0xab, 1], modTime = 0\<rparr>"
    and n: "now example_fresh_world = 24 * 3600000000000"
    and l: "logs example_fresh_world = []"
    by (simp_all add: example_fresh_world_def example_world_def time_Hour_def)
  have e: "files example_empty_world ''/data/GeoLite2-City.mmdb'' = None"
    and t: "trace example_empty_world = []"
    by (simp_all add: example_empty_world_def example_world_def)
  have q: "NewRequest example_runtime
             (Sprintf example_runtime (GeoLiteDBUrl example_config) (MaxMindLicenseKey example_config))"
    by (simp add: example_runtime_def)
  have url: "Sprintf example_runtime (GeoLiteDBUrl example_config) (MaxMindLicenseKey example_config)
               = ''https://maxmind.example/geoip?license_key=&suffix=tar.gz''"
    by (simp add: example_runtime_def example_config_def)
  from freshness_check [of example_fresh_world example_config "\<lparr>content = [0xab, 1], modTime = 0\<rparr>"
      example_runtime "example_service [0xab, 7] 2"]
    freshness_check [of example_empty_world example_config _
      example_runtime "example_service [0xab, 7] 2"]
    q e
  show ?thesis
    unfolding p f n l e t url by simp
qed

text \<open>
  C10. \<^verbatim>\<open>UpdateDatabase\<close> does not read the flag. On a service whose updater is reported
  disabled, with a database that is not up to date, it runs as it does with the flag off,
  and, when the request can be built, it sends the GET of the URL with the license key
  (empty or not) formatted in.
\<close>

theorem update_ignores_disabled_flag:
  assumes "DisableUpdater s"
    and "\<not> isDatabaseUpToDate c w"
    and "NewRequest rt (Sprintf rt (GeoLiteDBUrl c) (MaxMindLicenseKey c))"
  shows "UpdateDatabase rt c s w = UpdateDatabase rt c (s\<lparr>disableUpdater := False\<rparr>) w
       \<and> take (Suc (length (trace w))) (trace (snd (UpdateDatabase rt c s w)))
           = trace w @ [HttpGet (Sprintf rt (GeoLiteDBUrl c) (MaxMindLicenseKey c))]"
  using UpdateDatabase_requests [of c w rt s] assms(2,3)
  by (simp add: UpdateDatabase_def downloadUrl_def)

theorem update_ignores_disabled_flag_witness:
  "DisableUpdater (fst (NewGeoLiteService example_runtime example_config (example_client [0xab, 7] 2)
       example_world))
   \<and> \<not> isDatabaseUpToDate example_config example_world
   \<and> fst (UpdateDatabase example_runtime example_config
         (fst (NewGeoLiteService example_runtime example_config (example_client [0xab, 7] 2)
            example_world)) example_world) = None
   \<and> take 1 (trace (snd (UpdateDatabase example_runtime example_config
         (fst (NewGeoLiteService example_runtime example_config (example_client [0xab, 7] 2)
            example_world)) example_world)))
       = [HttpGet ''https://maxmind.example/geoip?license_key=&suffix=tar.gz'']"
proof -
  let ?s = "fst (NewGeoLiteService example_runtime example_config (example_client [0xab, 7] 2)
       example_world)"
  have 1: "DisableUpdater ?s"
    by (simp add: DisableUpdater_def NewGeoLiteService_disableUpdater example_config_def)
  have 2: "\<not> isDatabaseUpToDate example_config example_world"
    by (simp add: example_defs isDatabaseUpToDate_def time_Since_def time_Hour_def)
  have 3: "NewRequest example_runtime
             (Sprintf example_runtime (GeoLiteDBUrl example_config) (MaxMindLicenseKey example_config))"
    by (simp add: example_runtime_def)
  have url: "Sprintf example_runtime (GeoLiteDBUrl example_config) (MaxMindLicenseKey example_config)
               = ''https://maxmind.example/geoip?license_key=&suffix=tar.gz''"
    by (simp add: example_runtime_def example_config_def)
  have t: "trace example_world = []"
    by (simp add: example_world_def)
  have h: "?s = \<lparr>httpClient = example_client [0xab, 7] 2, disableUpdater = True,
                  localIPv6Ranges = []\<rparr>"
    by (simp add: NewGeoLiteService_def initializeIPv6LocalRanges_def example_split To4_def
        example_runtime_def example_config_def)
  have r: "fst (UpdateDatabase example_runtime example_config ?s example_world) = None"
    unfolding h by (simp add: example_defs run_defs)
  from update_ignores_disabled_flag [OF 1 2 3]
  have "take (Suc (length (trace example_world)))
          (trace (snd (UpdateDatabase example_runtime example_config ?s example_world)))
        = trace example_world
          @ [HttpGet (Sprintf example_runtime (GeoLiteDBUrl example_config)
                        (MaxMindLicenseKey example_config))]"
    by (rule conjunct2)
  with 1 2 r show ?thesis
    unfolding url t by simp
qed

end
